theory Spec2Isabelle
  imports Complex_Main "HOL-Library.Product_Lexorder"
begin

section \<open>JavaScript values and built-ins used by the handlers\<close>

text \<open>
  The handlers are JavaScript. The numbers they compute with are integers (page numbers,
  counts, lengths), except where a division by zero or an arithmetic operation on
  \<^verbatim>\<open>undefined\<close> produces \<^verbatim>\<open>Infinity\<close> or \<^verbatim>\<open>NaN\<close>. A number is therefore an integer or one of
  these two special values; a property read is a number or \<^verbatim>\<open>undefined\<close>.
\<close>

datatype js_number = Num int | PosInfinity | NaN

datatype js_value = Undefined | Number js_number

text \<open>\<^verbatim>\<open>x + d\<close> for an integer \<open>d\<close>: \<^verbatim>\<open>undefined\<close> is converted to \<^verbatim>\<open>NaN\<close>, which absorbs.\<close>

fun js_add :: "js_value \<Rightarrow> int \<Rightarrow> js_value" where
  "js_add Undefined d = Number NaN"
| "js_add (Number NaN) d = Number NaN"
| "js_add (Number PosInfinity) d = Number PosInfinity"
| "js_add (Number (Num n)) d = Number (Num (n + d))"

text \<open>
  \<^verbatim>\<open>parseInt(v)\<close> of a query value: \<open>None\<close> is an absent parameter (\<^verbatim>\<open>undefined\<close>), and the
  result \<open>None\<close> is \<^verbatim>\<open>NaN\<close>. Leading white space is skipped, one sign is read, a
  \<^verbatim>\<open>0x\<close> prefix selects radix 16, and the longest prefix of digits is the value; with no
  digit the result is \<^verbatim>\<open>NaN\<close>. Strings are byte strings, so only the ASCII white space
  characters are recognised, and the value is exact (it is not rounded to a double).
\<close>

definition is_ws :: "char \<Rightarrow> bool" where
  "is_ws c = (c = CHR '' '' \<or> c = CHR 0x09 \<or> c = CHR 0x0A \<or> c = CHR 0x0B
     \<or> c = CHR 0x0C \<or> c = CHR 0x0D)"

definition dec_digit :: "char \<Rightarrow> nat option" where
  "dec_digit c =
     (let n = (of_char c :: nat) in if 48 \<le> n \<and> n \<le> 57 then Some (n - 48) else None)"

definition hex_digit :: "char \<Rightarrow> nat option" where
  "hex_digit c =
     (let n = (of_char c :: nat)
      in if 48 \<le> n \<and> n \<le> 57 then Some (n - 48)
         else if 97 \<le> n \<and> n \<le> 102 then Some (n - 87)
         else if 65 \<le> n \<and> n \<le> 70 then Some (n - 55)
         else None)"

fun digits_prefix :: "nat \<Rightarrow> (char \<Rightarrow> nat option) \<Rightarrow> nat option \<Rightarrow> string \<Rightarrow> nat option" where
  "digits_prefix radix dv acc [] = acc"
| "digits_prefix radix dv acc (c # cs) =
     (case dv c of
        None \<Rightarrow> acc
      | Some d \<Rightarrow>
          digits_prefix radix dv
            (Some (radix * (case acc of None \<Rightarrow> 0 | Some a \<Rightarrow> a) + d)) cs)"

definition strip_sign :: "string \<Rightarrow> bool \<times> string" where
  "strip_sign s =
     (case s of
        [] \<Rightarrow> (False, [])
      | c # r \<Rightarrow>
          if c = CHR ''-'' then (True, r)
          else if c = CHR ''+'' then (False, r)
          else (False, s))"

definition has_hex_prefix :: "string \<Rightarrow> bool" where
  "has_hex_prefix s = (take 2 s = ''0x'' \<or> take 2 s = ''0X'')"

definition parseInt :: "string option \<Rightarrow> int option" where
  "parseInt v =
     (case v of
        None \<Rightarrow> None
      | Some s \<Rightarrow>
          (let (neg, t) = strip_sign (dropWhile is_ws s);
               mag = (if has_hex_prefix t then digits_prefix 16 hex_digit None (drop 2 t)
                      else digits_prefix 10 dec_digit None t)
           in map_option (\<lambda>n. if neg then - int n else int n) mag))"

text \<open>\<^verbatim>\<open>n || d\<close> for a number \<open>n\<close>: \<^verbatim>\<open>NaN\<close> and \<open>0\<close> are falsy and give the default.\<close>

definition or_default :: "int option \<Rightarrow> int \<Rightarrow> int" where
  "or_default x d = (case x of None \<Rightarrow> d | Some n \<Rightarrow> if n = 0 then d else n)"

text \<open>
  \<^verbatim>\<open>Array.prototype.slice(start, end)\<close>: a negative index counts from the end, both
  indices are clipped to the array, and an empty range gives the empty array.
\<close>

definition slice_index :: "nat \<Rightarrow> int \<Rightarrow> nat" where
  "slice_index len i = (if i < 0 then nat (max (int len + i) 0) else min (nat i) len)"

definition js_slice :: "'a list \<Rightarrow> int \<Rightarrow> int \<Rightarrow> 'a list" where
  "js_slice xs start fin =
     (let k = slice_index (length xs) start; f = slice_index (length xs) fin
      in take (f - k) (drop k xs))"

text \<open>
  \<^verbatim>\<open>Math.ceil(total / limit)\<close> for a count: division by zero gives \<^verbatim>\<open>Infinity\<close>
  (\<^verbatim>\<open>NaN\<close> for \<^verbatim>\<open>0 / 0\<close>). Counts here are lengths of collections, far below \<open>2^53\<close>, where
  the quotient of doubles rounds up to the exact ceiling.
\<close>

definition ceil_div :: "nat \<Rightarrow> int \<Rightarrow> js_number" where
  "ceil_div n lmt =
     (if lmt = 0 then (if n = 0 then NaN else PosInfinity)
      else Num (- ((- int n) div lmt)))"

text \<open>\<^verbatim>\<open>String.prototype.toLowerCase\<close> on ASCII letters.\<close>

definition lower_char :: "char \<Rightarrow> char" where
  "lower_char c =
     (let n = (of_char c :: nat) in if 65 \<le> n \<and> n \<le> 90 then char_of (n + 32) else c)"

definition toLowerCase :: "string \<Rightarrow> string" where
  "toLowerCase s = map lower_char s"

text \<open>\<^verbatim>\<open>Array.prototype.indexOf\<close>: the first position of a value, \<open>-1\<close> when absent.\<close>

fun indexOf :: "'a list \<Rightarrow> 'a \<Rightarrow> int" where
  "indexOf [] x = - 1"
| "indexOf (y # ys) x =
     (if y = x then 0 else (let i = indexOf ys x in if i = - 1 then - 1 else i + 1))"

text \<open>\<^verbatim>\<open>xs.splice(i, 1)\<close>: the start index is clipped as for \<open>slice\<close>, and at most one element
  is removed there.\<close>

definition splice1 :: "'a list \<Rightarrow> int \<Rightarrow> 'a list" where
  "splice1 xs i =
     (let k = slice_index (length xs) i
      in take k xs @ drop (k + min 1 (length xs - k)) xs)"

section \<open>The template catalogue (controllers/templateController.js)\<close>

subsection \<open>Documents, cache and responses\<close>

text \<open>
  A template document carries the fields the controller names, those of the seeder's
  objects (\<^verbatim>\<open>templateId\<close>, \<^verbatim>\<open>name\<close>,
  \<^verbatim>\<open>url\<close>, \<^verbatim>\<open>width\<close>, \<^verbatim>\<open>height\<close>, \<^verbatim>\<open>category\<close>, \<^verbatim>\<open>boxCount\<close>, \<^verbatim>\<open>popularity\<close>), the
  \<^verbatim>\<open>status\<close> the schema defaults to \<^verbatim>\<open>'pending'\<close>, and the creation time stamp. The
  collection is a list in the store's natural order. The store-assigned identifier is the
  key of the collection where a handler looks a document up by it; it is not a field here.
\<close>

record template =
  templateId :: string
  name :: string
  url :: string
  width :: int
  height :: int
  category :: string
  boxCount :: int
  popularity :: int
  status :: string
  createdAt :: int

text \<open>A response carries plain JSON objects: a document is a list of named values.\<close>

datatype json = JString string | JNumber int

type_synonym document = "(string \<times> json) list"

text \<open>\<^verbatim>\<open>.lean()\<close>: the plain object of a stored document, every stored field.\<close>

definition lean :: "template \<Rightarrow> document" where
  "lean t =
     [(''templateId'', JString (templateId t)), (''name'', JString (name t)),
      (''url'', JString (url t)), (''width'', JNumber (width t)),
      (''height'', JNumber (height t)), (''category'', JString (category t)),
      (''boxCount'', JNumber (boxCount t)), (''popularity'', JNumber (popularity t)),
      (''status'', JString (status t)), (''createdAt'', JNumber (createdAt t))]"

text \<open>\<^verbatim>\<open>.select('templateId name url width height category createdAt')\<close>\<close>

definition selected_fields :: "string list" where
  "selected_fields =
     [''templateId'', ''name'', ''url'', ''width'', ''height'', ''category'', ''createdAt'']"

definition select_fields :: "string list \<Rightarrow> document \<Rightarrow> document" where
  "select_fields fs d = filter (\<lambda>kv. fst kv \<in> set fs) d"

text \<open>
  The module-level cache: \<^verbatim>\<open>lastUpdated\<close> and \<^verbatim>\<open>data\<close> start as \<^verbatim>\<open>null\<close> (\<open>None\<close>).
\<close>

record template_cache =
  lastUpdated :: "int option"
  data :: "template list option"
  expiresIn :: int

definition initial_cache :: template_cache where
  "initial_cache = \<lparr>lastUpdated = None, data = None, expiresIn = 15 * 60 * 1000\<rparr>"

text \<open>
  The test of lines 22-23: \<^verbatim>\<open>data\<close> and \<^verbatim>\<open>lastUpdated\<close> are truthy (an array always is, a
  time stamp unless it is \<open>0\<close>) and the age is below \<^verbatim>\<open>expiresIn\<close>. The result is the
  cached array when the test holds.
\<close>

definition cache_read :: "int \<Rightarrow> template_cache \<Rightarrow> template list option" where
  "cache_read now c =
     (case data c of
        None \<Rightarrow> None
      | Some d \<Rightarrow>
          (case lastUpdated c of
             None \<Rightarrow> None
           | Some t \<Rightarrow> if t \<noteq> 0 \<and> now - t < expiresIn c then Some d else None))"

record pagination =
  currentPage :: int
  totalPages :: js_number
  totalTemplates :: nat
  limit :: int

text \<open>A page descriptor \<^verbatim>\<open>{ page, limit }\<close>.\<close>

datatype page_ref = PageRef int int

text \<open>
  The body of a successful listing: \<^verbatim>\<open>next\<close> and \<^verbatim>\<open>previous\<close> are \<open>None\<close> when the
  object has no such property.
\<close>

record 'a listing =
  templates :: "'a list"
  next_page :: "page_ref option"
  previous_page :: "page_ref option"
  pagination :: pagination

text \<open>
  A response body is a listing (\<^verbatim>\<open>success: true\<close>) or the failure object
  \<^verbatim>\<open>{ success: false, message, error }\<close>, where \<^verbatim>\<open>error\<close> is present in development only.
\<close>

datatype body = Success "document listing" | Failure string "string option"

datatype response = Response nat body

subsection \<open>Helper functions of the controller\<close>

text \<open>\<^verbatim>\<open>paginateResults(data, page, limit)\<close>, lines 124-155.\<close>

definition paginateResults :: "'a list \<Rightarrow> int \<Rightarrow> int \<Rightarrow> 'a listing" where
  "paginateResults xs page lmt =
     (let startIndex = (page - 1) * lmt;
          endIndex = page * lmt
      in \<lparr>templates = js_slice xs startIndex endIndex,
          next_page = (if endIndex < int (length xs) then Some (PageRef (page + 1) lmt) else None),
          previous_page = (if startIndex > 0 then Some (PageRef (page - 1) lmt) else None),
          pagination = \<lparr>currentPage = page, totalPages = ceil_div (length xs) lmt,
                         totalTemplates = length xs, limit = lmt\<rparr>\<rparr>)"

text \<open>
  A value of the query string as the framework's parser delivers it: a string, an array
  (a parameter given several times) or an object (a parameter with a bracketed key). An
  absent parameter is \<open>None\<close>.
\<close>

datatype query_value =
    QString string
  | QArray "query_value list"
  | QObject "(string \<times> query_value) list"

text \<open>
  Truthiness of a query value: \<^verbatim>\<open>undefined\<close> and the empty string are falsy; every array
  and every object is truthy.
\<close>

definition truthy :: "query_value option \<Rightarrow> bool" where
  "truthy v =
     (case v of
        None \<Rightarrow> False
      | Some (QString s) \<Rightarrow> s \<noteq> []
      | Some (QArray vs) \<Rightarrow> True
      | Some (QObject kvs) \<Rightarrow> True)"

text \<open>
  The query object: the optional value of \<^verbatim>\<open>$regex\<close> in the \<^verbatim>\<open>$or\<close> clause (matched
  against name or category with option \<^verbatim>\<open>i\<close>) and the optional exact category.
\<close>

record query =
  or_regex :: "query_value option"
  category_eq :: "string option"

text \<open>
  \<^verbatim>\<open>buildTemplateQuery(search, category)\<close>, lines 107-122. The search value goes into the
  query as it is. \<^verbatim>\<open>category.toLowerCase()\<close> is a method of strings only: on a truthy
  category that is an array or an object the call throws a \<^verbatim>\<open>TypeError\<close> (\<open>Inl\<close> of its
  message).
\<close>

definition buildTemplateQuery ::
    "query_value option \<Rightarrow> query_value option \<Rightarrow> string + query" where
  "buildTemplateQuery search cat =
     (let rx = (if truthy search then search else None)
      in if truthy cat then
           (case cat of
              Some (QString c) \<Rightarrow> Inr \<lparr>or_regex = rx, category_eq = Some (toLowerCase c)\<rparr>
            | Some (QArray vs) \<Rightarrow> Inl ''category.toLowerCase is not a function''
            | Some (QObject kvs) \<Rightarrow> Inl ''category.toLowerCase is not a function''
            | None \<Rightarrow> Inr \<lparr>or_regex = rx, category_eq = None\<rparr>)
         else Inr \<lparr>or_regex = rx, category_eq = None\<rparr>)"

text \<open>
  Whether the read accepts a query: the value of \<^verbatim>\<open>$regex\<close> has to be a string (an array
  or an object there fails the cast of the query), and the store has to accept the string
  as a pattern. Which strings are patterns is the parameter \<open>valid\<close>.
\<close>

definition query_accepted :: "(string \<Rightarrow> bool) \<Rightarrow> query \<Rightarrow> bool" where
  "query_accepted valid q =
     (case or_regex q of
        None \<Rightarrow> True
      | Some (QString p) \<Rightarrow> valid p
      | Some (QArray vs) \<Rightarrow> False
      | Some (QObject kvs) \<Rightarrow> False)"

text \<open>
  Whether a document satisfies an accepted query. The store's pattern matching (\<^verbatim>\<open>$regex\<close>
  with option \<^verbatim>\<open>i\<close>) is the parameter \<open>rx\<close>: \<open>rx p s\<close> says that pattern \<open>p\<close> matches
  \<open>s\<close>.
\<close>

definition matches :: "(string \<Rightarrow> string \<Rightarrow> bool) \<Rightarrow> query \<Rightarrow> template \<Rightarrow> bool" where
  "matches rx q t =
     ((case or_regex q of
         None \<Rightarrow> True
       | Some (QString p) \<Rightarrow> rx p (name t) \<or> rx p (category t)
       | Some (QArray vs) \<Rightarrow> False
       | Some (QObject kvs) \<Rightarrow> False)
      \<and> (case category_eq q of None \<Rightarrow> True | Some c \<Rightarrow> category t = c))"

text \<open>\<^verbatim>\<open>Template.find(query)\<close> and \<^verbatim>\<open>Template.countDocuments(query)\<close> on an accepted query.\<close>

definition find_docs :: "(string \<Rightarrow> string \<Rightarrow> bool) \<Rightarrow> query \<Rightarrow> template list \<Rightarrow> template list" where
  "find_docs rx q coll = filter (matches rx q) coll"

definition countDocuments :: "(string \<Rightarrow> string \<Rightarrow> bool) \<Rightarrow> query \<Rightarrow> template list \<Rightarrow> nat" where
  "countDocuments rx q coll = length (find_docs rx q coll)"

text \<open>
  \<^verbatim>\<open>.sort({ popularity: -1, createdAt: -1 })\<close>: descending popularity, then descending
  creation time; documents that agree on both keep the order of the collection.
\<close>

definition sort_templates :: "template list \<Rightarrow> template list" where
  "sort_templates ts = sort_key (\<lambda>t. (- popularity t, - createdAt t)) ts"

text \<open>
  The bounded read \<^verbatim>\<open>.skip(skip).limit(limit)\<close>. The store rejects a negative skip (the
  read fails, \<open>None\<close>); a negative limit bounds the result by its absolute value. A limit
  of \<open>0\<close>, which would mean no bound, is never passed: \<^verbatim>\<open>|| 20\<close> replaces it.
\<close>

definition skip_limit :: "int \<Rightarrow> int \<Rightarrow> 'a list \<Rightarrow> 'a list option" where
  "skip_limit skip lmt xs =
     (if skip < 0 then None
      else Some (if lmt = 0 then drop (nat skip) xs
                 else take (nat \<bar>lmt\<bar>) (drop (nat skip) xs)))"

subsection \<open>The environment of a request and the state of the process\<close>

text \<open>
  What a call reads from outside: the clock (\<^verbatim>\<open>Date.now()\<close>, one reading for the whole
  call: the test of the cache and its refresh see the same time), the outcome of the GET to
  the external template source (a rejection covers a network error, a non-2xx status,
  the 5 second timeout and a payload without the list), the draws of
  \<^verbatim>\<open>Math.floor(Math.random() * 1000)\<close> (the \<open>i\<close>-th draw, reduced into \<open>[0, 1000)\<close>), the
  store's pattern matching and which strings it accepts as patterns, the message of the
  error with which a read is rejected, and whether \<^verbatim>\<open>NODE_ENV\<close> is \<^verbatim>\<open>development\<close>.
\<close>

datatype imgflip_meme = ImgflipMeme string string string int int int

datatype fetch_result = FetchFailed string | FetchOk "imgflip_meme list"

record env =
  date_now :: int
  imgflip :: fetch_result
  random1000 :: "nat \<Rightarrow> nat"
  regex :: "string \<Rightarrow> string \<Rightarrow> bool"
  regex_valid :: "string \<Rightarrow> bool"
  store_error :: string
  development :: bool

text \<open>
  The state a call reads and writes: the template collection, the module-level cache, and
  the number of GETs issued to the external template source so far.
\<close>

record world =
  store :: "template list"
  templateCache :: template_cache
  imgflip_requests :: nat

text \<open>
  The query string of a listing request. \<^verbatim>\<open>page\<close> and \<^verbatim>\<open>limit\<close> are only ever passed to
  \<^verbatim>\<open>parseInt\<close>, which converts its argument to a string first, so they are given as that
  string (for an array, its elements joined by commas). \<^verbatim>\<open>search\<close> and \<^verbatim>\<open>category\<close> are
  used as they arrive.
\<close>

record list_request =
  q_page :: "string option"
  q_limit :: "string option"
  q_search :: "query_value option"
  q_category :: "query_value option"

subsection \<open>Seeding\<close>

text \<open>\<^verbatim>\<open>checkDatabaseSeed()\<close>, lines 77-80.\<close>

definition checkDatabaseSeed :: "world \<Rightarrow> bool" where
  "checkDatabaseSeed w = (length (store w) = 0)"

text \<open>The mapping of one external record, lines 88-97; the fields are id, name, url,
  width, height and box count.\<close>

fun seed_template :: "int \<Rightarrow> nat \<Rightarrow> imgflip_meme \<Rightarrow> template" where
  "seed_template now pop (ImgflipMeme i n u w h b) =
     \<lparr>templateId = i, name = n, url = u, width = w, height = h,
      category = ''popular'', boxCount = b, popularity = int (pop mod 1000),
      status = ''pending'', createdAt = now\<rparr>"

definition seed_documents :: "env \<Rightarrow> imgflip_meme list \<Rightarrow> template list" where
  "seed_documents e memes =
     map (\<lambda>(i, m). seed_template (date_now e) (random1000 e i) m) (enumerate 0 memes)"

text \<open>
  The validation of \<^verbatim>\<open>templateSchema\<close> that \<^verbatim>\<open>Template.insertMany\<close> runs on each of the
  seeder's objects before anything is written. The schema requires the paths \<^verbatim>\<open>user\<close>,
  \<^verbatim>\<open>name\<close>, \<^verbatim>\<open>imageUrl\<close>, \<^verbatim>\<open>publicId\<close>, \<^verbatim>\<open>width\<close>, \<^verbatim>\<open>height\<close> and \<^verbatim>\<open>category\<close>, of which the
  seeder's objects (lines 88-97) carry the ones in \<open>seeder_paths\<close>; it restricts
  \<^verbatim>\<open>category\<close> to its enumeration, \<^verbatim>\<open>width\<close> and \<^verbatim>\<open>height\<close> to \<open>[100, 5000]\<close>, the trimmed
  \<^verbatim>\<open>name\<close> to 100 characters and \<^verbatim>\<open>popularity\<close> to at least 0.
\<close>

definition required_paths :: "string list" where
  "required_paths =
     [''user'', ''name'', ''imageUrl'', ''publicId'', ''width'', ''height'', ''category'']"

definition seeder_paths :: "string list" where
  "seeder_paths =
     [''templateId'', ''name'', ''url'', ''width'', ''height'', ''category'', ''boxCount'',
      ''popularity'']"

definition category_enum :: "string list" where
  "category_enum =
     [''Funny'', ''Animals'', ''Movies'', ''TV Shows'', ''Celebrities'', ''Gaming'', ''Anime'',
      ''Politics'', ''Other'']"

definition trim :: "string \<Rightarrow> string" where
  "trim s = rev (dropWhile is_ws (rev (dropWhile is_ws s)))"

definition seed_doc_valid :: "template \<Rightarrow> bool" where
  "seed_doc_valid t =
     (list_all (\<lambda>p. p \<in> set seeder_paths) required_paths
      \<and> category t \<in> set category_enum
      \<and> 100 \<le> width t \<and> width t \<le> 5000 \<and> 100 \<le> height t \<and> height t \<le> 5000
      \<and> length (trim (name t)) \<le> 100 \<and> 0 \<le> popularity t)"

text \<open>
  \<^verbatim>\<open>Template.insertMany(templates)\<close>: when a document fails validation the call rejects
  and nothing is written (\<open>None\<close>); otherwise the documents are appended.
\<close>

definition insertMany :: "template list \<Rightarrow> template list \<Rightarrow> template list option" where
  "insertMany docs coll = (if list_all seed_doc_valid docs then Some (coll @ docs) else None)"

text \<open>
  \<^verbatim>\<open>seedTemplatesFromImgFlip()\<close>, lines 82-105: the GET, then the bulk insert. Any
  failure, of the GET or of the insert, is rethrown as \<^verbatim>\<open>Template seeding failed\<close>
  (\<open>Some\<close> of the message).
\<close>

definition seedTemplatesFromImgFlip :: "env \<Rightarrow> world \<Rightarrow> world \<times> string option" where
  "seedTemplatesFromImgFlip e w =
     (let w1 = w\<lparr>imgflip_requests := Suc (imgflip_requests w)\<rparr>
      in case imgflip e of
           FetchFailed msg \<Rightarrow> (w1, Some ''Template seeding failed'')
         | FetchOk memes \<Rightarrow>
             (case insertMany (seed_documents e memes) (store w1) of
                None \<Rightarrow> (w1, Some ''Template seeding failed'')
              | Some coll \<Rightarrow> (w1\<lparr>store := coll\<rparr>, None)))"

subsection \<open>The listing handler\<close>

definition failure :: "env \<Rightarrow> string \<Rightarrow> response" where
  "failure e msg =
     Response 500 (Failure ''Failed to fetch templates''
       (if development e then Some msg else None))"

definition json_listing :: "template listing \<Rightarrow> document listing" where
  "json_listing l =
     \<lparr>templates = map lean (templates l), next_page = next_page l,
      previous_page = previous_page l, pagination = pagination l\<rparr>"

text \<open>The parsing of \<^verbatim>\<open>page\<close> and \<^verbatim>\<open>limit\<close>, lines 16-17.\<close>

definition parse_page :: "string option \<Rightarrow> int" where
  "parse_page v = or_default (parseInt v) 1"

definition parse_limit :: "string option \<Rightarrow> int" where
  "parse_limit v = min (or_default (parseInt v) 20) 100"

text \<open>The seeding step of the handler, lines 27-31.\<close>

definition seed_step :: "env \<Rightarrow> world \<Rightarrow> world \<times> string option" where
  "seed_step e w = (if checkDatabaseSeed w then seedTemplatesFromImgFlip e w else (w, None))"

text \<open>
  \<^verbatim>\<open>exports.getTemplates\<close>, lines 14-73. Every exception inside the \<^verbatim>\<open>try\<close> block ends in
  the 500 response of the \<^verbatim>\<open>catch\<close> block; what was written before it stays written.
  The exceptions of the model are the failure of seeding, the \<^verbatim>\<open>TypeError\<close> of
  \<^verbatim>\<open>buildTemplateQuery\<close>, and the rejection of the read (of a query that is not accepted
  or of a negative skip) before the cache is refreshed; the store is otherwise available,
  and calls do not interleave.
\<close>

definition getTemplates :: "env \<Rightarrow> list_request \<Rightarrow> world \<Rightarrow> world \<times> response" where
  "getTemplates e req w =
     (let page = parse_page (q_page req);
          lmt = parse_limit (q_limit req);
          skip = (page - 1) * lmt
      in case cache_read (date_now e) (templateCache w) of
           Some d \<Rightarrow> (w, Response 200 (Success (json_listing (paginateResults d page lmt))))
         | None \<Rightarrow>
            (case seed_step e w of
               (w1, Some msg) \<Rightarrow> (w1, failure e msg)
             | (w1, None) \<Rightarrow>
                (case buildTemplateQuery (q_search req) (q_category req) of
                   Inl msg \<Rightarrow> (w1, failure e msg)
                 | Inr q \<Rightarrow>
                    (if \<not> query_accepted (regex_valid e) q then (w1, failure e (store_error e))
                     else case skip_limit skip lmt
                                 (sort_templates (find_docs (regex e) q (store w1))) of
                            None \<Rightarrow> (w1, failure e (store_error e))
                          | Some ts \<Rightarrow>
                             (let total = countDocuments (regex e) q (store w1);
                                  w2 = w1\<lparr>templateCache :=
                                         \<lparr>lastUpdated = Some (date_now e),
                                          data = Some (find_docs (regex e) q (store w1)),
                                          expiresIn = 15 * 60 * 1000\<rparr>\<rparr>
                              in (w2, Response 200 (Success
                                   \<lparr>templates =
                                      map (\<lambda>t. select_fields selected_fields (lean t)) ts,
                                    next_page = None, previous_page = None,
                                    pagination = \<lparr>currentPage = page,
                                      totalPages = ceil_div total lmt,
                                      totalTemplates = total, limit = lmt\<rparr>\<rparr>)))))))"

subsection \<open>Reading a response\<close>

text \<open>The listing of a successful response, its pagination metadata, and the status code.\<close>

definition listing_of :: "response \<Rightarrow> document listing option" where
  "listing_of r =
     (case r of
        Response code (Success l) \<Rightarrow> Some l
      | Response code (Failure m err) \<Rightarrow> None)"

definition status_of :: "response \<Rightarrow> nat" where
  "status_of r = (case r of Response code b \<Rightarrow> code)"

definition pagination_of :: "response \<Rightarrow> pagination option" where
  "pagination_of r = map_option pagination (listing_of r)"

definition total_pages_of :: "response \<Rightarrow> js_number option" where
  "total_pages_of r = map_option totalPages (pagination_of r)"

text \<open>
  The view of a document that the store-bound read returns; the query of a request (the
  empty query where \<^verbatim>\<open>buildTemplateQuery\<close> throws); and the ordered sequence of documents
  a call takes its page from: the cached array when the cache is read, otherwise the
  matching documents of the collection (as it is after the seeding step) in the order of
  the sort.
\<close>

definition selected_view :: "template \<Rightarrow> document" where
  "selected_view t = select_fields selected_fields (lean t)"

definition request_query :: "list_request \<Rightarrow> query" where
  "request_query req =
     (case buildTemplateQuery (q_search req) (q_category req) of
        Inl msg \<Rightarrow> \<lparr>or_regex = None, category_eq = None\<rparr>
      | Inr q \<Rightarrow> q)"

definition page_source :: "env \<Rightarrow> list_request \<Rightarrow> world \<Rightarrow> document list" where
  "page_source e req w =
     (case cache_read (date_now e) (templateCache w) of
        Some d \<Rightarrow> map lean d
      | None \<Rightarrow>
          map selected_view
            (sort_templates
               (find_docs (regex e) (request_query req) (store (fst (seed_step e w))))))"

text \<open>The names of the fields of a stored document, in the order of \<open>lean\<close>.\<close>

definition stored_fields :: "string list" where
  "stored_fields =
     [''templateId'', ''name'', ''url'', ''width'', ''height'', ''category'', ''boxCount'',
      ''popularity'', ''status'', ''createdAt'']"

text \<open>
  Seeding fails when the call reaches it and the external GET is rejected or the insert
  is. A request is unfiltered when neither search nor category is given. A call that is
  not served from the cache reads the store successfully when seeding does not fail,
  \<^verbatim>\<open>buildTemplateQuery\<close> returns a query, and the read accepts it.
\<close>

definition seeding_fails :: "env \<Rightarrow> world \<Rightarrow> bool" where
  "seeding_fails e w =
     (cache_read (date_now e) (templateCache w) = None \<and> checkDatabaseSeed w
      \<and> (case imgflip e of
            FetchFailed msg \<Rightarrow> True
          | FetchOk memes \<Rightarrow> insertMany (seed_documents e memes) (store w) = None))"

definition unfiltered :: "list_request \<Rightarrow> bool" where
  "unfiltered req = (\<not> truthy (q_search req) \<and> \<not> truthy (q_category req))"

definition store_read_ok :: "env \<Rightarrow> list_request \<Rightarrow> world \<Rightarrow> bool" where
  "store_read_ok e req w =
     (\<not> seeding_fails e w
      \<and> (case buildTemplateQuery (q_search req) (q_category req) of
            Inl msg \<Rightarrow> False
          | Inr q \<Rightarrow> query_accepted (regex_valid e) q))"

subsection \<open>Sample data\<close>

text \<open>
  A template named \<open>n\<close> in category \<open>c\<close> with popularity \<open>p\<close>, created at \<open>t\<close>; an
  environment at time \<open>now\<close> whose pattern matching accepts every string as a pattern and
  matches a string equal to the pattern up to case; a request whose search and category
  are strings or absent.
\<close>

definition tpl :: "string \<Rightarrow> string \<Rightarrow> int \<Rightarrow> int \<Rightarrow> template" where
  "tpl n c p t =
     \<lparr>templateId = n, name = n, url = ''https://i.imgflip.com/'' @ n, width = 500,
      height = 400, category = c, boxCount = 2, popularity = p, status = ''pending'',
      createdAt = t\<rparr>"

definition env_at :: "int \<Rightarrow> fetch_result \<Rightarrow> env" where
  "env_at now fetch =
     \<lparr>date_now = now, imgflip = fetch, random1000 = (\<lambda>i. 7 * i),
      regex = (\<lambda>p s. toLowerCase p = toLowerCase s), regex_valid = (\<lambda>p. True),
      store_error = ''the read was rejected'', development = False\<rparr>"

definition request :: "string option \<Rightarrow> string option \<Rightarrow> string option \<Rightarrow> string option
    \<Rightarrow> list_request" where
  "request p l s c =
     \<lparr>q_page = p, q_limit = l, q_search = map_option QString s,
      q_category = map_option QString c\<rparr>"

definition cache_of :: "int \<Rightarrow> template list \<Rightarrow> template_cache" where
  "cache_of t d = \<lparr>lastUpdated = Some t, data = Some d, expiresIn = 15 * 60 * 1000\<rparr>"

definition world_of :: "template list \<Rightarrow> template_cache \<Rightarrow> world" where
  "world_of coll c = \<lparr>store = coll, templateCache = c, imgflip_requests = 0\<rparr>"

text \<open>
  Documents numbered \<open>0\<close> to \<open>n - 1\<close>, the number being both popularity and creation
  time, and the creation time of a document of a response.
\<close>

definition numbered :: "nat \<Rightarrow> template list" where
  "numbered n = map (\<lambda>i. tpl ''meme'' ''popular'' (int i) (int i)) [0..<n]"

definition created_of :: "document \<Rightarrow> json option" where
  "created_of d = map_of d ''createdAt''"

section \<open>The listing route (routes/templateRoutes.js)\<close>

text \<open>
  The validation of lines 131-132. An absent \<^verbatim>\<open>page\<close> or \<^verbatim>\<open>limit\<close> is replaced by the
  number \<open>1\<close> or \<open>20\<close> when the query is destructured (lines 122-128), which
  \<^verbatim>\<open>parseInt\<close> reads back as that number.
\<close>

definition pageNum :: "string option \<Rightarrow> int" where
  "pageNum v =
     max (or_default (case v of None \<Rightarrow> Some 1 | Some s \<Rightarrow> parseInt (Some s)) 1) 1"

definition limitNum :: "string option \<Rightarrow> int" where
  "limitNum v =
     min (max (or_default (case v of None \<Rightarrow> Some 20 | Some s \<Rightarrow> parseInt (Some s)) 20) 1) 100"

section \<open>Likes on memes (the like route and the Meme model)\<close>

text \<open>Identifiers assigned by the store (\<^verbatim>\<open>ObjectId\<close>) are natural numbers.\<close>

type_synonym oid = nat

text \<open>
  The paths of \<^verbatim>\<open>memeSchema\<close>: \<^verbatim>\<open>user\<close>, \<^verbatim>\<open>template\<close>, \<^verbatim>\<open>imageUrl\<close>, \<^verbatim>\<open>texts\<close> (here the
  contents only), \<^verbatim>\<open>likes\<close> and \<^verbatim>\<open>createdAt\<close>. These are what the store keeps of a meme.
\<close>

record meme =
  user :: oid
  template_ref :: oid
  imageUrl :: string
  texts :: "string list"
  likes :: "oid list"
  created :: int

text \<open>
  The document object a handler holds in memory: the schema's paths, and the property
  \<^verbatim>\<open>likesCount\<close> that the like handler reads and assigns. The schema declares no such
  path, so a loaded document reads it as \<^verbatim>\<open>undefined\<close>, and \<^verbatim>\<open>save()\<close> writes the
  schema's paths only.
\<close>

record meme_document = meme +
  likesCount :: js_value

definition hydrate :: "meme \<Rightarrow> meme_document" where
  "hydrate m = meme.extend m (meme_document.fields Undefined)"

definition save :: "meme_document \<Rightarrow> meme" where
  "save d = meme.truncate d"

text \<open>
  The responses of the like route: 404 when the meme does not exist, otherwise the
  action (\<^verbatim>\<open>liked\<close> or \<^verbatim>\<open>unliked\<close>) and the \<^verbatim>\<open>likesCount\<close> of the document in memory.
\<close>

datatype like_response = MemeNotFound | LikeResult string js_value

text \<open>\<^verbatim>\<open>router.post('/:id/like')\<close>: the handler for meme \<open>mid\<close> and the authenticated user.\<close>

definition like :: "(oid \<rightharpoonup> meme) \<Rightarrow> oid \<Rightarrow> oid \<Rightarrow> (oid \<rightharpoonup> meme) \<times> like_response" where
  "like memes mid userId =
     (case memes mid of
        None \<Rightarrow> (memes, MemeNotFound)
      | Some m \<Rightarrow>
          (let doc = hydrate m;
               likeIndex = indexOf (likes doc) userId
           in if likeIndex = - 1 then
                (let doc1 = doc\<lparr>likes := likes doc @ [userId],
                                likesCount := js_add (likesCount doc) 1\<rparr>
                 in (memes(mid \<mapsto> save doc1), LikeResult ''liked'' (likesCount doc1)))
              else
                (let doc1 = doc\<lparr>likes := splice1 (likes doc) likeIndex,
                                likesCount := js_add (likesCount doc) (- 1)\<rparr>
                 in (memes(mid \<mapsto> save doc1), LikeResult ''unliked'' (likesCount doc1)))))"

subsection \<open>Reading the stored meme, and sample data\<close>

text \<open>
  What a handler that loads meme \<open>mid\<close> reads as its \<^verbatim>\<open>likesCount\<close> and as the length of
  its \<^verbatim>\<open>likes\<close>; \<open>None\<close> when there is no such meme.
\<close>

definition stored_likesCount :: "(oid \<rightharpoonup> meme) \<Rightarrow> oid \<Rightarrow> js_value option" where
  "stored_likesCount memes mid = map_option (\<lambda>m. likesCount (hydrate m)) (memes mid)"

definition stored_likes :: "(oid \<rightharpoonup> meme) \<Rightarrow> oid \<Rightarrow> oid list option" where
  "stored_likes memes mid = map_option likes (memes mid)"

text \<open>A meme of user \<open>owner\<close> with the likes \<open>ls\<close>.\<close>

definition meme_of :: "oid \<Rightarrow> oid list \<Rightarrow> meme" where
  "meme_of owner ls =
     \<lparr>user = owner, template_ref = 1, imageUrl = ''https://i.imgflip.com/30b1gx.jpg'',
      texts = [''top'', ''bottom''], likes = ls, created = 1000\<rparr>"

section \<open>Favourite templates (the favourite route)\<close>

text \<open>
  Modelled from the spec: the User model is not among the sources. Of a user document
  only the \<^verbatim>\<open>favoriteTemplates\<close> array, which the handler reads and writes, is kept.
\<close>

record user_doc =
  favoriteTemplates :: "oid list"

text \<open>The two collections the handler works on, keyed by identifier.\<close>

record catalogue =
  templates_by_id :: "oid \<rightharpoonup> template"
  users :: "oid \<rightharpoonup> user_doc"

datatype favorite_response = TemplateNotFound | UserNotFound | Toggled string "oid list"

text \<open>\<^verbatim>\<open>Template.exists({ _id: templateId, status: 'active' })\<close>\<close>

definition template_active :: "catalogue \<Rightarrow> oid \<Rightarrow> bool" where
  "template_active s tid =
     (case templates_by_id s tid of None \<Rightarrow> False | Some t \<Rightarrow> status t = ''active'')"

text \<open>\<^verbatim>\<open>Template.findByIdAndUpdate(templateId, { $inc: { popularity: d } })\<close>\<close>

definition inc_popularity :: "oid \<Rightarrow> int \<Rightarrow> catalogue \<Rightarrow> catalogue" where
  "inc_popularity tid d s =
     (case templates_by_id s tid of
        None \<Rightarrow> s
      | Some t \<Rightarrow>
          s\<lparr>templates_by_id := (templates_by_id s)(tid \<mapsto> t\<lparr>popularity := popularity t + d\<rparr>)\<rparr>)"

text \<open>\<^verbatim>\<open>router.post('/:id/favorite')\<close>, lines 296-369, for the authenticated user \<open>uid\<close>.\<close>

definition favorite :: "catalogue \<Rightarrow> oid \<Rightarrow> oid \<Rightarrow> catalogue \<times> favorite_response" where
  "favorite s tid uid =
     (if \<not> template_active s tid then (s, TemplateNotFound)
      else case users s uid of
             None \<Rightarrow> (s, UserNotFound)
           | Some u \<Rightarrow>
               (let index = indexOf (favoriteTemplates u) tid
                in if index = - 1 then
                     (let u1 = u\<lparr>favoriteTemplates := favoriteTemplates u @ [tid]\<rparr>;
                          s1 = inc_popularity tid 1 s
                      in (s1\<lparr>users := (users s1)(uid \<mapsto> u1)\<rparr>,
                          Toggled ''added'' (favoriteTemplates u1)))
                   else
                     (let u1 = u\<lparr>favoriteTemplates := splice1 (favoriteTemplates u) index\<rparr>;
                          s1 = inc_popularity tid (- 1) s
                      in (s1\<lparr>users := (users s1)(uid \<mapsto> u1)\<rparr>,
                          Toggled ''removed'' (favoriteTemplates u1)))))"

text \<open>A sequence of calls, each a template and the user who makes it.\<close>

fun favorites :: "catalogue \<Rightarrow> (oid \<times> oid) list \<Rightarrow> catalogue" where
  "favorites s [] = s"
| "favorites s ((tid, uid) # calls) = favorites (fst (favorite s tid uid)) calls"

subsection \<open>Favourites and popularity\<close>

text \<open>
  The number of entries for template \<open>tid\<close> in the favourites of all users, and the
  states in which no template's popularity is below that number. A catalogue in which
  nobody has a favourite yet and no popularity is negative is such a state.
\<close>

definition fav_count :: "catalogue \<Rightarrow> oid \<Rightarrow> nat" where
  "fav_count s tid =
     (\<Sum>uid \<in> dom (users s).
        case users s uid of None \<Rightarrow> 0 | Some u \<Rightarrow> count_list (favoriteTemplates u) tid)"

definition consistent :: "catalogue \<Rightarrow> bool" where
  "consistent s =
     (finite (dom (users s))
      \<and> (\<forall>tid t. templates_by_id s tid = Some t \<longrightarrow> int (fav_count s tid) \<le> popularity t))"

text \<open>
  The popularity of template \<open>tid\<close>, and a sample catalogue: the active template 5 with
  popularity \<open>p\<close>, and user 9 with the favourites \<open>favs\<close>.
\<close>

definition popularity_at :: "catalogue \<Rightarrow> oid \<Rightarrow> int option" where
  "popularity_at s tid = map_option popularity (templates_by_id s tid)"

definition catalogue_of :: "int \<Rightarrow> oid list \<Rightarrow> catalogue" where
  "catalogue_of p favs =
     \<lparr>templates_by_id = [5 \<mapsto> (tpl ''drake'' ''popular'' p 1)\<lparr>status := ''active''\<rparr>],
      users = [9 \<mapsto> \<lparr>favoriteTemplates = favs\<rparr>]\<rparr>"

section \<open>Properties of the built-ins\<close>

lemmas parse_defs = parseInt_def strip_sign_def has_hex_prefix_def is_ws_def dec_digit_def
  hex_digit_def or_default_def

lemma parseInt_probe:
  "parseInt (Some ''42'') = Some 42 \<and> parseInt (Some '' -3x'') = Some (- 3)
   \<and> parseInt (Some ''abc'') = None \<and> parseInt None = None
   \<and> parseInt (Some ''0x1F'') = Some 31 \<and> parseInt (Some []) = None"
  by (simp add: parse_defs)

text \<open>For indices that are not negative, \<open>slice\<close> is \<open>take\<close> after \<open>drop\<close>.\<close>

lemma js_slice_nonneg:
  assumes "0 \<le> s" "0 \<le> l"
  shows "js_slice xs s (s + l) = take (nat l) (drop (nat s) xs)"
proof -
  have a: "slice_index (length xs) s = min (nat s) (length xs)"
    using assms by (simp add: slice_index_def)
  have b: "slice_index (length xs) (s + l) = min (nat s + nat l) (length xs)"
    using assms by (simp add: slice_index_def nat_add_distrib)
  show ?thesis
    unfolding js_slice_def Let_def a b
    by (cases "nat s \<le> length xs") (auto simp: min_def not_le)
qed

lemma js_slice_page:
  assumes "1 \<le> page" "1 \<le> lmt"
  shows "js_slice xs ((page - 1) * lmt) (page * lmt) =
         take (nat lmt) (drop (nat ((page - 1) * lmt)) xs)"
proof -
  have s0: "0 \<le> (page - 1) * lmt" using assms by simp
  have e0: "page * lmt = (page - 1) * lmt + lmt" by (simp add: algebra_simps)
  show ?thesis unfolding e0 using js_slice_nonneg[OF s0, of lmt xs] assms by simp
qed

text \<open>\<open>ceil_div\<close> is the ceiling of the quotient.\<close>

lemma ceil_div_ceiling:
  "lmt \<noteq> 0 \<Longrightarrow> ceil_div n lmt = Num \<lceil>real n / real_of_int lmt\<rceil>"
  unfolding ceil_div_def
  using ceiling_divide_eq_div[of "int n" lmt, where ?'a = real] by simp

section \<open>Parsing of page and limit\<close>

lemma parse_limit_le: "parse_limit v \<le> 100"
  by (simp add: parse_limit_def)

text \<open>The route clamps both values, and a value that is not a number gives the default.\<close>

lemma route_clamps: "1 \<le> pageNum v \<and> 1 \<le> limitNum v \<and> limitNum v \<le> 100"
  by (simp add: pageNum_def limitNum_def)

lemma route_defaults: "parseInt v = None \<Longrightarrow> pageNum v = 1 \<and> limitNum v = 20"
  by (cases v) (simp_all add: pageNum_def limitNum_def or_default_def)

text \<open>
  The controller gives the defaults for a value that is not a number and bounds the limit
  by 100 from above.
\<close>

lemma controller_defaults: "parseInt v = None \<Longrightarrow> parse_page v = 1 \<and> parse_limit v = 20"
  by (simp add: parse_page_def parse_limit_def or_default_def)

text \<open>
  Claim C5: invalid page and limit values are clamped, never rejected: a page below 1
  gives page 1 and the limit is clamped into \<open>[1, 100]\<close>. The route does so; the
  controller has no lower bound: the page \<^verbatim>\<open>-3\<close> stays \<open>-3\<close> and the limit \<^verbatim>\<open>-5\<close> stays
  \<open>-5\<close>, where the route gives 1 and 1.
\<close>

theorem controller_page_limit_not_clamped:
  "parse_page (Some ''-3'') = - 3 \<and> parse_limit (Some ''-5'') = - 5
   \<and> pageNum (Some ''-3'') = 1 \<and> limitNum (Some ''-5'') = 1"
  by (simp add: parse_page_def parse_limit_def pageNum_def limitNum_def parse_defs)

section \<open>The listing handler, case by case\<close>

text \<open>A call served from the cache: the state is unchanged.\<close>

lemma getTemplates_hit:
  "cache_read (date_now e) (templateCache w) = Some d \<Longrightarrow>
   getTemplates e req w =
     (w, Response 200 (Success (json_listing
        (paginateResults d (parse_page (q_page req)) (parse_limit (q_limit req))))))"
  by (simp add: getTemplates_def Let_def)

text \<open>
  No object of the seeder passes the validation of the schema: its category \<^verbatim>\<open>popular\<close> is
  not in the enumeration (and required paths are missing). So the insert of the seeder
  succeeds only for an empty list of external records, and writes nothing then.
\<close>

lemma seed_doc_invalid: "\<not> seed_doc_valid (seed_template now pop m)"
  by (cases m) (simp add: seed_doc_valid_def category_enum_def)

lemma insertMany_seed:
  "insertMany (seed_documents e memes) coll = (if memes = [] then Some coll else None)"
proof (cases memes)
  case Nil
  then show ?thesis by (simp add: insertMany_def seed_documents_def)
next
  case (Cons m ms)
  then show ?thesis
    by (simp add: insertMany_def seed_documents_def enumerate_simps seed_doc_invalid)
qed

lemma seed_step_store: "store (fst (seed_step e w)) = store w"
  by (auto simp add: seed_step_def seedTemplatesFromImgFlip_def Let_def insertMany_seed
      split: fetch_result.splits)

lemma seed_step_cache: "templateCache (fst (seed_step e w)) = templateCache w"
  by (auto simp add: seed_step_def seedTemplatesFromImgFlip_def Let_def insertMany_seed
      split: fetch_result.splits)

lemma seed_step_requests:
  "imgflip_requests (fst (seed_step e w)) =
     (if checkDatabaseSeed w then Suc (imgflip_requests w) else imgflip_requests w)"
  by (auto simp add: seed_step_def seedTemplatesFromImgFlip_def Let_def insertMany_seed
      split: fetch_result.splits)

lemma seed_step_failed:
  "seeding_fails e w \<Longrightarrow>
   seed_step e w =
     (w\<lparr>imgflip_requests := Suc (imgflip_requests w)\<rparr>, Some ''Template seeding failed'')"
  by (auto simp add: seeding_fails_def seed_step_def seedTemplatesFromImgFlip_def Let_def
      split: fetch_result.splits)

lemma seed_step_ok:
  "cache_read (date_now e) (templateCache w) = None \<Longrightarrow> \<not> seeding_fails e w \<Longrightarrow>
   snd (seed_step e w) = None"
  by (auto simp add: seeding_fails_def seed_step_def seedTemplatesFromImgFlip_def Let_def
      split: fetch_result.splits option.splits)

text \<open>Seeding fails exactly on an empty collection with a rejected GET or a non-empty list.\<close>

lemma seeding_fails_iff:
  "seeding_fails e w =
     (cache_read (date_now e) (templateCache w) = None \<and> store w = []
      \<and> (case imgflip e of FetchFailed msg \<Rightarrow> True | FetchOk memes \<Rightarrow> memes \<noteq> []))"
  by (auto simp add: seeding_fails_def checkDatabaseSeed_def insertMany_seed
      split: fetch_result.splits)

text \<open>A call that reaches the seeding step and fails there.\<close>

lemma getTemplates_miss_seed_failed:
  "cache_read (date_now e) (templateCache w) = None \<Longrightarrow> seeding_fails e w \<Longrightarrow>
   getTemplates e req w =
     (w\<lparr>imgflip_requests := Suc (imgflip_requests w)\<rparr>,
      failure e ''Template seeding failed'')"
  by (simp add: getTemplates_def Let_def seed_step_failed)

text \<open>An unfiltered request has the empty query, which every read accepts.\<close>

lemma unfiltered_query:
  "unfiltered req \<Longrightarrow>
   buildTemplateQuery (q_search req) (q_category req) = Inr \<lparr>or_regex = None, category_eq = None\<rparr>"
  by (simp add: unfiltered_def buildTemplateQuery_def)

lemma find_docs_all: "find_docs rx \<lparr>or_regex = None, category_eq = None\<rparr> coll = coll"
  by (simp add: find_docs_def matches_def)

text \<open>A call that reads the store, with a query and a skip that the read accepts.\<close>

lemma getTemplates_miss_ok:
  assumes "cache_read (date_now e) (templateCache w) = None" "store_read_ok e req w"
    "0 \<le> (parse_page (q_page req) - 1) * parse_limit (q_limit req)"
  shows "getTemplates e req w =
      ((fst (seed_step e w))\<lparr>templateCache := \<lparr>lastUpdated = Some (date_now e),
          data = Some (find_docs (regex e) (request_query req) (store w)),
          expiresIn = 15 * 60 * 1000\<rparr>\<rparr>,
       Response 200 (Success
         \<lparr>templates = map selected_view
             (if parse_limit (q_limit req) = 0 then
                drop (nat ((parse_page (q_page req) - 1) * parse_limit (q_limit req)))
                  (sort_templates (find_docs (regex e) (request_query req) (store w)))
              else take (nat \<bar>parse_limit (q_limit req)\<bar>)
                (drop (nat ((parse_page (q_page req) - 1) * parse_limit (q_limit req)))
                  (sort_templates (find_docs (regex e) (request_query req) (store w))))),
          next_page = None, previous_page = None,
          pagination = \<lparr>currentPage = parse_page (q_page req),
            totalPages =
              ceil_div (countDocuments (regex e) (request_query req) (store w))
                (parse_limit (q_limit req)),
            totalTemplates = countDocuments (regex e) (request_query req) (store w),
            limit = parse_limit (q_limit req)\<rparr>\<rparr>))"
proof -
  have ns: "\<not> seeding_fails e w" using assms(2) by (simp add: store_read_ok_def)
  obtain w1 where w1: "seed_step e w = (w1, None)"
    using seed_step_ok[OF assms(1) ns] by (cases "seed_step e w") auto
  have s1: "store w1 = store w" using seed_step_store[of e w] by (simp add: w1)
  obtain q where q: "buildTemplateQuery (q_search req) (q_category req) = Inr q"
    and acc: "query_accepted (regex_valid e) q"
    using assms(2) by (auto simp add: store_read_ok_def split: sum.splits)
  have rq: "request_query req = q" by (simp add: request_query_def q)
  show ?thesis
    using assms(3)
    by (simp add: getTemplates_def Let_def w1 s1 q acc rq assms(1) skip_limit_def
        selected_view_def)
qed

lemmas sample_defs = tpl_def env_at_def request_def cache_of_def world_of_def
  initial_cache_def

lemmas read_defs = listing_of_def pagination_of_def total_pages_of_def status_of_def

section \<open>Page size and page count\<close>

text \<open>
  Claim C1, amended: take a request whose page is at least 1 and whose limit is in
  \<open>[1, 100]\<close> (the limit never exceeds 100), and which either reads the store (seeding
  does not fail, the category is a string or absent, and the search is absent or a pattern
  the store accepts) or is unfiltered and served from the cache. Then the listing
  succeeds, returns the page \<open>[(page - 1) * limit, page * limit)\<close> of the sequence it
  paginates, so at most \<open>limit\<close> items, and \<open>totalPages\<close> is the ceiling of
  \<open>total / limit\<close>, where \<open>total\<close> is the reported \<open>totalTemplates\<close>: the number of stored
  documents that match the request's filter when the call reads the store, and the length
  of the cached array when the unfiltered request is served from the cache. In particular
  page 2 with limit 10 of 25 such documents is items 11 to 20 and \<open>totalPages\<close> is 3.
\<close>

theorem listing_page_bounds:
  assumes page: "1 \<le> parse_page (q_page req)"
    and lmt: "1 \<le> parse_limit (q_limit req)"
    and hit: "cache_read (date_now e) (templateCache w) \<noteq> None \<Longrightarrow> unfiltered req"
    and miss: "cache_read (date_now e) (templateCache w) = None \<Longrightarrow> store_read_ok e req w"
  shows "\<exists>l. snd (getTemplates e req w) = Response 200 (Success l)
    \<and> templates l =
        take (nat (parse_limit (q_limit req)))
          (drop (nat ((parse_page (q_page req) - 1) * parse_limit (q_limit req)))
             (page_source e req w))
    \<and> length (templates l) \<le> nat (parse_limit (q_limit req))
    \<and> parse_limit (q_limit req) \<le> 100
    \<and> totalTemplates (pagination l) = length (page_source e req w)
    \<and> totalTemplates (pagination l) =
        (case cache_read (date_now e) (templateCache w) of
           Some d \<Rightarrow> length d
         | None \<Rightarrow>
             countDocuments (regex e) (request_query req) (store (fst (getTemplates e req w))))
    \<and> totalPages (pagination l) =
        Num \<lceil>real (totalTemplates (pagination l)) / real_of_int (parse_limit (q_limit req))\<rceil>
    \<and> (parse_page (q_page req) = 2 \<and> parse_limit (q_limit req) = 10
         \<and> totalTemplates (pagination l) = 25 \<longrightarrow>
         templates l = take 10 (drop 10 (page_source e req w))
         \<and> length (templates l) = 10 \<and> totalPages (pagination l) = Num 3)"
proof (cases "cache_read (date_now e) (templateCache w)")
  case (Some d)
  have src: "page_source e req w = map lean d" by (simp add: page_source_def Some)
  have nz: "parse_limit (q_limit req) \<noteq> 0" using lmt by simp
  show ?thesis
    unfolding getTemplates_hit[OF Some] src
    using page lmt
    by (simp add: json_listing_def paginateResults_def Let_def js_slice_page Some
        take_map drop_map ceil_div_ceiling[OF nz] parse_limit_le)
next
  case None
  have ok: "store_read_ok e req w" by (rule miss[OF None])
  have s0: "0 \<le> (parse_page (q_page req) - 1) * parse_limit (q_limit req)"
    using page lmt by simp
  have nz: "parse_limit (q_limit req) \<noteq> 0" using lmt by simp
  have src: "page_source e req w = map selected_view
            (sort_templates (find_docs (regex e) (request_query req) (store w)))"
    by (simp add: page_source_def None seed_step_store)
  show ?thesis
    unfolding getTemplates_miss_ok[OF None ok s0] src
    using page lmt
    by (simp add: None take_map drop_map ceil_div_ceiling[OF nz] countDocuments_def
        sort_templates_def parse_limit_le seed_step_store)
qed

text \<open>
  Two instances. Page 2 with limit 10 of the 25 numbered documents, read from the store:
  the page holds the documents created at 14 down to 5, the eleventh to the twentieth in
  the order of the sort. And the same request served from a cache that holds the 25
  documents.
\<close>

theorem listing_page_bounds_witness:
  "1 \<le> parse_page (q_page (request (Some ''2'') (Some ''10'') None None))
   \<and> 1 \<le> parse_limit (q_limit (request (Some ''2'') (Some ''10'') None None))
   \<and> cache_read (date_now (env_at 5000 (FetchFailed ''timeout'')))
        (templateCache (world_of (numbered 25) initial_cache)) = None
   \<and> store_read_ok (env_at 5000 (FetchFailed ''timeout''))
        (request (Some ''2'') (Some ''10'') None None) (world_of (numbered 25) initial_cache)
   \<and> (\<exists>l. snd (getTemplates (env_at 5000 (FetchFailed ''timeout''))
               (request (Some ''2'') (Some ''10'') None None)
               (world_of (numbered 25) initial_cache))
             = Response 200 (Success l)
          \<and> totalTemplates (pagination l) = 25
          \<and> map created_of (templates l)
              = map (\<lambda>i. Some (JNumber i)) [14, 13, 12, 11, 10, 9, 8, 7, 6, 5]
          \<and> length (templates l) = 10 \<and> totalPages (pagination l) = Num 3)
   \<and> unfiltered (request (Some ''2'') (Some ''10'') None None)
   \<and> (\<exists>l. snd (getTemplates (env_at 5000 (FetchFailed ''timeout''))
               (request (Some ''2'') (Some ''10'') None None)
               (world_of (numbered 3) (cache_of 4000 (numbered 25))))
             = Response 200 (Success l)
          \<and> totalTemplates (pagination l) = 25
          \<and> length (templates l) = 10 \<and> totalPages (pagination l) = Num 3)"
proof -
  let ?e = "env_at 5000 (FetchFailed ''timeout'')"
  let ?r = "request (Some ''2'') (Some ''10'') None None"
  let ?w = "world_of (numbered 25) initial_cache"
  let ?v = "world_of (numbered 3) (cache_of 4000 (numbered 25))"
  have p: "parse_page (q_page ?r) = 2"
    by (simp add: request_def parse_page_def parse_defs)
  have n: "parse_limit (q_limit ?r) = 10"
    by (simp add: request_def parse_limit_def parse_defs)
  have c: "cache_read (date_now ?e) (templateCache ?w) = None"
    by (simp add: sample_defs cache_read_def)
  have c': "cache_read (date_now ?e) (templateCache ?v) = Some (numbered 25)"
    by (simp add: sample_defs cache_read_def)
  have u: "unfiltered ?r" by (simp add: unfiltered_def request_def truthy_def)
  have ne: "store ?w \<noteq> []" by code_simp
  have ok: "store_read_ok ?e ?r ?w"
    using ne c
    by (simp add: store_read_ok_def seeding_fails_iff unfiltered_query[OF u]
        query_accepted_def)
  have len: "length (numbered 25) = 25" by (simp add: numbered_def)
  have cnt: "countDocuments (regex ?e) (request_query ?r) (numbered 25) = 25"
    by (simp add: countDocuments_def request_query_def unfiltered_query[OF u] find_docs_all len)
  have created: "map_option (\<lambda>l. map created_of (templates l))
        (listing_of (snd (getTemplates ?e ?r ?w)))
      = Some (map (\<lambda>i. Some (JNumber i)) [14, 13, 12, 11, 10, 9, 8, 7, 6, 5])"
    by code_simp
  obtain l where l: "snd (getTemplates ?e ?r ?w) = Response 200 (Success l)"
    and tl: "totalTemplates (pagination l) =
        (case cache_read (date_now ?e) (templateCache ?w) of
           Some d \<Rightarrow> length d
         | None \<Rightarrow>
             countDocuments (regex ?e) (request_query ?r) (store (fst (getTemplates ?e ?r ?w))))"
    and ex: "parse_page (q_page ?r) = 2 \<and> parse_limit (q_limit ?r) = 10
         \<and> totalTemplates (pagination l) = 25 \<longrightarrow>
         templates l = take 10 (drop 10 (page_source ?e ?r ?w))
         \<and> length (templates l) = 10 \<and> totalPages (pagination l) = Num 3"
    using listing_page_bounds[of ?r ?e ?w] p n c ok by auto
  have st: "store (fst (getTemplates ?e ?r ?w)) = numbered 25"
    using getTemplates_miss_ok[OF c ok] p n
    by (simp add: seed_step_store world_of_def)
  have t25: "totalTemplates (pagination l) = 25" using tl c st cnt by simp
  have cr: "map created_of (templates l)
      = map (\<lambda>i. Some (JNumber i)) [14, 13, 12, 11, 10, 9, 8, 7, 6, 5]"
    using created l by (simp add: listing_of_def)
  obtain l' where l': "snd (getTemplates ?e ?r ?v) = Response 200 (Success l')"
    and tl': "totalTemplates (pagination l') =
        (case cache_read (date_now ?e) (templateCache ?v) of
           Some d \<Rightarrow> length d
         | None \<Rightarrow>
             countDocuments (regex ?e) (request_query ?r) (store (fst (getTemplates ?e ?r ?v))))"
    and ex': "parse_page (q_page ?r) = 2 \<and> parse_limit (q_limit ?r) = 10
         \<and> totalTemplates (pagination l') = 25 \<longrightarrow>
         templates l' = take 10 (drop 10 (page_source ?e ?r ?v))
         \<and> length (templates l') = 10 \<and> totalPages (pagination l') = Num 3"
    using listing_page_bounds[of ?r ?e ?v] p n c' u by auto
  have t25': "totalTemplates (pagination l') = 25" using tl' c' len by simp
  have ex1: "length (templates l) = 10 \<and> totalPages (pagination l) = Num 3"
    using ex p n t25 by blast
  have ex1': "length (templates l') = 10 \<and> totalPages (pagination l') = Num 3"
    using ex' p n t25' by blast
  have h1: "1 \<le> parse_page (q_page ?r)" using p by simp
  have h2: "1 \<le> parse_limit (q_limit ?r)" using n by simp
  have A: "\<exists>l. snd (getTemplates ?e ?r ?w) = Response 200 (Success l)
          \<and> totalTemplates (pagination l) = 25
          \<and> map created_of (templates l)
              = map (\<lambda>i. Some (JNumber i)) [14, 13, 12, 11, 10, 9, 8, 7, 6, 5]
          \<and> length (templates l) = 10 \<and> totalPages (pagination l) = Num 3"
    using l t25 cr ex1 by blast
  have B: "\<exists>l. snd (getTemplates ?e ?r ?v) = Response 200 (Success l)
          \<and> totalTemplates (pagination l) = 25
          \<and> length (templates l) = 10 \<and> totalPages (pagination l) = Num 3"
    using l' t25' ex1' by blast
  show ?thesis
    using h1 h2 c ok A u B by blast
qed

text \<open>
  The claim as it was stated takes \<open>total\<close> to be the number of matching records. A call
  served from the cache counts the cached array instead: with one document cached 1000 ms
  ago and three documents in the collection, limit 2 gives \<open>totalPages = 1\<close>, while three
  matching records make 2 pages.
\<close>

theorem listing_total_counterexample:
  "parse_page (q_page (request None (Some ''2'') None None)) = 1
   \<and> parse_limit (q_limit (request None (Some ''2'') None None)) = 2
   \<and> total_pages_of (snd (getTemplates (env_at 1000000 (FetchFailed ''timeout''))
        (request None (Some ''2'') None None)
        (world_of [tpl ''drake'' ''popular'' 9 1, tpl ''doge'' ''popular'' 5 2,
                   tpl ''fry'' ''popular'' 1 3]
           (cache_of 999000 [tpl ''drake'' ''popular'' 9 1])))) = Some (Num 1)
   \<and> countDocuments (regex (env_at 1000000 (FetchFailed ''timeout'')))
        (request_query (request None (Some ''2'') None None))
        [tpl ''drake'' ''popular'' 9 1, tpl ''doge'' ''popular'' 5 2,
                   tpl ''fry'' ''popular'' 1 3] = 3
   \<and> ceil_div 3 2 = Num 2"
  by code_simp

text \<open>
  Requests with a valid page and limit that end in the 500 response: with the page
  \<^verbatim>\<open>-3\<close> the controller computes the skip \<open>-80\<close>, which the store rejects; a category
  given twice arrives as an array, on which \<^verbatim>\<open>toLowerCase\<close> is not a function; a search
  string that the store does not accept as a pattern fails the read; and on an empty
  collection a successful GET is followed by an insert that the schema rejects.
\<close>

lemma negative_page_rejected:
  "snd (getTemplates (env_at 1000000 (FetchFailed ''timeout''))
     (request (Some ''-3'') None None None)
     (world_of [tpl ''drake'' ''popular'' 9 1] initial_cache))
   = Response 500 (Failure ''Failed to fetch templates'' None)"
  by code_simp

lemma array_category_rejected:
  "snd (getTemplates (env_at 1000000 (FetchFailed ''timeout''))
     \<lparr>q_page = None, q_limit = None, q_search = None,
      q_category = Some (QArray [QString ''animals'', QString ''popular''])\<rparr>
     (world_of [tpl ''drake'' ''popular'' 9 1] initial_cache))
   = Response 500 (Failure ''Failed to fetch templates'' None)"
  by code_simp

lemma invalid_pattern_rejected:
  "snd (getTemplates ((env_at 1000000 (FetchFailed ''timeout''))\<lparr>regex_valid := (\<lambda>p. p \<noteq> ''('')\<rparr>)
     (request None None (Some ''('') None)
     (world_of [tpl ''drake'' ''popular'' 9 1] initial_cache))
   = Response 500 (Failure ''Failed to fetch templates'' None)"
  by code_simp

lemma seeding_rejected_by_schema:
  "getTemplates (env_at 2000 (FetchOk [ImgflipMeme ''181913649'' ''Drake Hotline Bling''
       ''https://i.imgflip.com/30b1gx.jpg'' 1200 1200 2]))
     (request None None None None) (world_of [] initial_cache)
   = (\<lparr>store = [], templateCache = initial_cache, imgflip_requests = 1\<rparr>,
      Response 500 (Failure ''Failed to fetch templates'' None))"
  by code_simp

section \<open>The cache and the request's filter\<close>

text \<open>
  Claim C2: the cached short-circuit is taken only when search and category are both
  absent; a request with a filter bypasses the cache and is answered from the store. The
  handler tests the cache before it looks at the filter: with a fresh cache of two
  documents, a request for the category \<^verbatim>\<open>animals\<close> is answered with both cached
  documents, the one in category \<^verbatim>\<open>popular\<close> included, and the state is left as it was,
  although one stored document matches the filter.
\<close>

theorem filtered_request_served_from_cache:
  "getTemplates (env_at 1000000 (FetchFailed ''timeout''))
     (request None None None (Some ''animals''))
     (world_of [tpl ''doge'' ''animals'' 5 2, tpl ''drake'' ''popular'' 9 1]
        (cache_of 999000 [tpl ''doge'' ''animals'' 5 2, tpl ''drake'' ''popular'' 9 1]))
   = (world_of [tpl ''doge'' ''animals'' 5 2, tpl ''drake'' ''popular'' 9 1]
        (cache_of 999000 [tpl ''doge'' ''animals'' 5 2, tpl ''drake'' ''popular'' 9 1]),
      Response 200 (Success
        \<lparr>templates = [lean (tpl ''doge'' ''animals'' 5 2), lean (tpl ''drake'' ''popular'' 9 1)],
         next_page = None, previous_page = None,
         pagination = \<lparr>currentPage = 1, totalPages = Num 1, totalTemplates = 2,
                        limit = 20\<rparr>\<rparr>))
   \<and> find_docs (regex (env_at 1000000 (FetchFailed ''timeout'')))
        (request_query (request None None None (Some ''animals'')))
        [tpl ''doge'' ''animals'' 5 2, tpl ''drake'' ''popular'' 9 1]
      = [tpl ''doge'' ''animals'' 5 2]"
  by code_simp

text \<open>
  Claim C3: every call that is not served from the cache refreshes the cache with an
  unfiltered read of the whole collection. The handler refreshes it with
  \<^verbatim>\<open>Template.find(query)\<close>, the query of the request: after a request for the category
  \<^verbatim>\<open>animals\<close> on a collection of two documents the cache holds the one matching document,
  and the next request without any filter, 1000 ms later, is answered from it with that
  one document.
\<close>

theorem cache_refreshed_with_filtered_read:
  "data (templateCache (fst (getTemplates (env_at 1000000 (FetchFailed ''timeout''))
     (request None None None (Some ''animals''))
     (world_of [tpl ''doge'' ''animals'' 5 2, tpl ''drake'' ''popular'' 9 1] initial_cache))))
   = Some [tpl ''doge'' ''animals'' 5 2]
   \<and> store (fst (getTemplates (env_at 1000000 (FetchFailed ''timeout''))
     (request None None None (Some ''animals''))
     (world_of [tpl ''doge'' ''animals'' 5 2, tpl ''drake'' ''popular'' 9 1] initial_cache)))
   = [tpl ''doge'' ''animals'' 5 2, tpl ''drake'' ''popular'' 9 1]
   \<and> snd (getTemplates (env_at 1001000 (FetchFailed ''timeout''))
     (request None None None None)
     (fst (getTemplates (env_at 1000000 (FetchFailed ''timeout''))
       (request None None None (Some ''animals''))
       (world_of [tpl ''doge'' ''animals'' 5 2, tpl ''drake'' ''popular'' 9 1] initial_cache))))
   = Response 200 (Success
        \<lparr>templates = [lean (tpl ''doge'' ''animals'' 5 2)],
         next_page = None, previous_page = None,
         pagination = \<lparr>currentPage = 1, totalPages = Num 1, totalTemplates = 1,
                        limit = 20\<rparr>\<rparr>)"
  by code_simp

text \<open>
  What the refresh does in general: the cache takes the documents matching the request's
  query, so it is the whole collection exactly when the query matches every document.
\<close>

lemma cache_after_store_read:
  assumes "cache_read (date_now e) (templateCache w) = None" "store_read_ok e req w"
    "0 \<le> (parse_page (q_page req) - 1) * parse_limit (q_limit req)"
  shows "templateCache (fst (getTemplates e req w)) =
           \<lparr>lastUpdated = Some (date_now e),
            data = Some (find_docs (regex e) (request_query req)
                           (store (fst (getTemplates e req w)))),
            expiresIn = 15 * 60 * 1000\<rparr>"
  unfolding getTemplates_miss_ok[OF assms] by (simp add: seed_step_store)

section \<open>Pagination metadata of the two paths\<close>

text \<open>
  Claim C4, amended: for the same data snapshot, not empty, an unfiltered request and the
  same page and limit, the pagination metadata (current page, total pages, total
  templates, limit) of the cached path equals that of the store-bound path. Here \<open>w1\<close> is
  a state whose cache is read and holds the collection of \<open>w2\<close>, a state whose cache is
  not read; the skip \<open>(page - 1) * limit\<close> is not negative (it is not whenever page and
  limit are at least 1). Both calls return metadata, and the same.
\<close>

theorem pagination_paths_agree:
  assumes hit: "cache_read (date_now e) (templateCache w1) = Some (store w2)"
    and miss: "cache_read (date_now e') (templateCache w2) = None"
    and nonempty: "store w2 \<noteq> []"
    and nofilter: "unfiltered req"
    and skip: "0 \<le> (parse_page (q_page req) - 1) * parse_limit (q_limit req)"
  shows "pagination_of (snd (getTemplates e req w1)) =
           pagination_of (snd (getTemplates e' req w2))
    \<and> pagination_of (snd (getTemplates e' req w2)) =
        Some \<lparr>currentPage = parse_page (q_page req),
              totalPages = ceil_div (length (store w2)) (parse_limit (q_limit req)),
              totalTemplates = length (store w2),
              limit = parse_limit (q_limit req)\<rparr>"
proof -
  have ok: "store_read_ok e' req w2"
    using nonempty
    by (simp add: store_read_ok_def seeding_fails_iff unfiltered_query[OF nofilter]
        query_accepted_def)
  have rq: "request_query req = \<lparr>or_regex = None, category_eq = None\<rparr>"
    by (simp add: request_query_def unfiltered_query[OF nofilter])
  show ?thesis
    unfolding getTemplates_hit[OF hit] getTemplates_miss_ok[OF miss ok skip]
    by (simp add: read_defs json_listing_def paginateResults_def Let_def rq
        countDocuments_def find_docs_all)
qed

text \<open>
  An instance: the same three documents cached 1000 ms ago in one state and not cached in
  the other, page 2 with limit 2.
\<close>

theorem pagination_paths_agree_witness:
  "pagination_of (snd (getTemplates (env_at 1000000 (FetchFailed ''timeout''))
      (request (Some ''2'') (Some ''2'') None None)
      (world_of [tpl ''drake'' ''popular'' 9 1, tpl ''doge'' ''animals'' 5 2,
                 tpl ''fry'' ''popular'' 1 3]
         (cache_of 999000 [tpl ''drake'' ''popular'' 9 1, tpl ''doge'' ''animals'' 5 2,
                 tpl ''fry'' ''popular'' 1 3]))))
   = pagination_of (snd (getTemplates (env_at 1000000 (FetchFailed ''timeout''))
      (request (Some ''2'') (Some ''2'') None None)
      (world_of [tpl ''drake'' ''popular'' 9 1, tpl ''doge'' ''animals'' 5 2,
                 tpl ''fry'' ''popular'' 1 3] initial_cache)))
   \<and> pagination_of (snd (getTemplates (env_at 1000000 (FetchFailed ''timeout''))
      (request (Some ''2'') (Some ''2'') None None)
      (world_of [tpl ''drake'' ''popular'' 9 1, tpl ''doge'' ''animals'' 5 2,
                 tpl ''fry'' ''popular'' 1 3] initial_cache)))
   = Some \<lparr>currentPage = 2, totalPages = Num 2, totalTemplates = 3, limit = 2\<rparr>"
proof -
  let ?e = "env_at 1000000 (FetchFailed ''timeout'')"
  let ?r = "request (Some ''2'') (Some ''2'') None None"
  let ?c = "[tpl ''drake'' ''popular'' 9 1, tpl ''doge'' ''animals'' 5 2,
             tpl ''fry'' ''popular'' 1 3]"
  let ?w1 = "world_of ?c (cache_of 999000 ?c)"
  let ?w2 = "world_of ?c initial_cache"
  have hit: "cache_read (date_now ?e) (templateCache ?w1) = Some (store ?w2)"
    by (simp add: cache_read_def sample_defs)
  have miss: "cache_read (date_now ?e) (templateCache ?w2) = None"
    by (simp add: cache_read_def sample_defs)
  have ne: "store ?w2 \<noteq> []" by (simp add: world_of_def)
  have u: "unfiltered ?r" by (simp add: unfiltered_def request_def truthy_def)
  have p: "parse_page (q_page ?r) = 2" "parse_limit (q_limit ?r) = 2"
    by (simp_all add: request_def parse_page_def parse_limit_def parse_defs)
  have sk: "0 \<le> (parse_page (q_page ?r) - 1) * parse_limit (q_limit ?r)"
    by (simp add: p)
  show ?thesis
    using pagination_paths_agree[OF hit miss ne u sk]
    by (simp add: p ceil_div_def world_of_def)
qed

text \<open>
  The claim as it was stated has no condition on the snapshot. On the empty snapshot the
  cached path reports 0 templates on 0 pages, while the store-bound path first tries to
  seed the collection and, the external source timing out, answers with status 500 and no
  metadata.
\<close>

theorem pagination_paths_counterexample:
  "pagination_of (snd (getTemplates (env_at 1000000 (FetchFailed ''timeout''))
      (request None None None None) (world_of [] (cache_of 999000 []))))
     = Some \<lparr>currentPage = 1, totalPages = Num 0, totalTemplates = 0, limit = 20\<rparr>
   \<and> pagination_of (snd (getTemplates (env_at 1000000 (FetchFailed ''timeout''))
      (request None None None None) (world_of [] initial_cache))) = None
   \<and> snd (getTemplates (env_at 1000000 (FetchFailed ''timeout''))
      (request None None None None) (world_of [] initial_cache))
     = Response 500 (Failure ''Failed to fetch templates'' None)"
  by code_simp

text \<open>
  The two other conditions of the amended claim set aside inputs on which the paths differ
  as well: a request with a filter, which the cached path ignores, and a page below 1,
  whose negative skip the store rejects.
\<close>

lemma paths_differ_on_filter:
  "pagination_of (snd (getTemplates (env_at 1000000 (FetchFailed ''timeout''))
      (request None None None (Some ''animals''))
      (world_of [tpl ''doge'' ''animals'' 5 2, tpl ''drake'' ''popular'' 9 1]
         (cache_of 999000 [tpl ''doge'' ''animals'' 5 2, tpl ''drake'' ''popular'' 9 1]))))
     = Some \<lparr>currentPage = 1, totalPages = Num 1, totalTemplates = 2, limit = 20\<rparr>
   \<and> pagination_of (snd (getTemplates (env_at 1000000 (FetchFailed ''timeout''))
      (request None None None (Some ''animals''))
      (world_of [tpl ''doge'' ''animals'' 5 2, tpl ''drake'' ''popular'' 9 1] initial_cache)))
     = Some \<lparr>currentPage = 1, totalPages = Num 1, totalTemplates = 1, limit = 20\<rparr>"
  by code_simp

lemma paths_differ_on_negative_page:
  "pagination_of (snd (getTemplates (env_at 1000000 (FetchFailed ''timeout''))
      (request (Some ''-3'') None None None)
      (world_of [tpl ''drake'' ''popular'' 9 1]
         (cache_of 999000 [tpl ''drake'' ''popular'' 9 1]))))
     = Some \<lparr>currentPage = - 3, totalPages = Num 1, totalTemplates = 1, limit = 20\<rparr>
   \<and> pagination_of (snd (getTemplates (env_at 1000000 (FetchFailed ''timeout''))
      (request (Some ''-3'') None None None)
      (world_of [tpl ''drake'' ''popular'' 9 1] initial_cache))) = None"
  by code_simp

section \<open>Seeding failure\<close>

text \<open>A cache that is not read now is not read at any later time either.\<close>

lemma cache_read_later:
  "cache_read now c = None \<Longrightarrow> now \<le> now' \<Longrightarrow> cache_read now' c = None"
  by (auto simp add: cache_read_def split: option.splits if_splits)

text \<open>
  A call that is not served from the cache leaves the collection and the request counter
  as the seeding step left them, however it ends.
\<close>

lemma getTemplates_miss_frame:
  assumes "cache_read (date_now e) (templateCache w) = None"
  shows "store (fst (getTemplates e req w)) = store (fst (seed_step e w))
    \<and> imgflip_requests (fst (getTemplates e req w)) = imgflip_requests (fst (seed_step e w))"
  by (cases "seed_step e w")
    (auto simp add: getTemplates_def Let_def assms split: option.splits sum.splits)

text \<open>
  Claim C6: when the external fetch fails or times out during seeding, seeding aborts
  before any insert: the listing request that triggered it gets the failure response
  (\<^verbatim>\<open>success: false\<close>, status 500), the collection stays empty and the cache untouched,
  and a later listing request attempts seeding again: it issues the GET once more.
\<close>

theorem seeding_failure_aborts:
  assumes miss: "cache_read (date_now e) (templateCache w) = None"
    and empty: "store w = []"
    and fetch: "imgflip e = FetchFailed msg"
  shows "getTemplates e req w =
           (w\<lparr>imgflip_requests := Suc (imgflip_requests w)\<rparr>,
            Response 500 (Failure ''Failed to fetch templates''
              (if development e then Some ''Template seeding failed'' else None)))
    \<and> store (fst (getTemplates e req w)) = []
    \<and> templateCache (fst (getTemplates e req w)) = templateCache w
    \<and> (\<forall>e' req'. date_now e \<le> date_now e' \<longrightarrow>
          imgflip_requests (fst (getTemplates e' req' (fst (getTemplates e req w))))
            = Suc (Suc (imgflip_requests w)))"
proof -
  have sf: "seeding_fails e w"
    using assms by (simp add: seeding_fails_def checkDatabaseSeed_def)
  have first: "getTemplates e req w =
      (w\<lparr>imgflip_requests := Suc (imgflip_requests w)\<rparr>, failure e ''Template seeding failed'')"
    by (rule getTemplates_miss_seed_failed[OF miss sf])
  let ?w' = "w\<lparr>imgflip_requests := Suc (imgflip_requests w)\<rparr>"
  have later: "imgflip_requests (fst (getTemplates e' req' ?w')) = Suc (Suc (imgflip_requests w))"
    if le: "date_now e \<le> date_now e'" for e' req'
  proof -
    have m': "cache_read (date_now e') (templateCache ?w') = None"
      using cache_read_later[OF miss le] by simp
    show ?thesis
      unfolding getTemplates_miss_frame[OF m', THEN conjunct2]
      using empty by (simp add: seed_step_requests checkDatabaseSeed_def)
  qed
  show ?thesis
    unfolding first using later empty by (simp add: failure_def)
qed

text \<open>
  An instance: an empty collection and an empty cache, the external source timing out at
  time 1000; the request at time 2000 issues the second GET.
\<close>

theorem seeding_failure_aborts_witness:
  "getTemplates (env_at 1000 (FetchFailed ''timeout'')) (request None None None None)
     (world_of [] initial_cache)
   = (\<lparr>store = [], templateCache = initial_cache, imgflip_requests = 1\<rparr>,
      Response 500 (Failure ''Failed to fetch templates'' None))
   \<and> imgflip_requests (fst (getTemplates (env_at 2000 (FetchFailed ''timeout''))
       (request None None None None)
       (fst (getTemplates (env_at 1000 (FetchFailed ''timeout'')) (request None None None None)
          (world_of [] initial_cache))))) = 2"
proof -
  let ?e = "env_at 1000 (FetchFailed ''timeout'')"
  let ?e' = "env_at 2000 (FetchFailed ''timeout'')"
  let ?r = "request None None None None"
  let ?w = "world_of [] initial_cache"
  have miss: "cache_read (date_now ?e) (templateCache ?w) = None"
    by (simp add: cache_read_def sample_defs)
  have empty: "store ?w = []" by (simp add: world_of_def)
  have fetch: "imgflip ?e = FetchFailed ''timeout''" by (simp add: env_at_def)
  have le: "date_now ?e \<le> date_now ?e'" by (simp add: env_at_def)
  note t = seeding_failure_aborts[OF miss empty fetch, of ?r]
  have a: "getTemplates ?e ?r ?w =
      (\<lparr>store = [], templateCache = initial_cache, imgflip_requests = 1\<rparr>,
      Response 500 (Failure ''Failed to fetch templates'' None))"
    using t by (simp add: world_of_def env_at_def)
  have l: "imgflip_requests (fst (getTemplates ?e' ?r (fst (getTemplates ?e ?r ?w))))
            = Suc (Suc (imgflip_requests ?w))"
    using t le by blast
  have b: "imgflip_requests (fst (getTemplates ?e' ?r (fst (getTemplates ?e ?r ?w)))) = 2"
    using l by (simp add: world_of_def)
  show ?thesis
    using a b by simp
qed

section \<open>The response body and the freshness of the cache\<close>

lemma lean_fields: "map fst (lean t) = stored_fields"
  by (simp add: lean_def stored_fields_def)

lemma selected_view_fields: "map fst (selected_view t) = selected_fields"
  by (simp add: selected_view_def select_fields_def lean_def selected_fields_def)

lemma stored_not_selected: "stored_fields \<noteq> selected_fields"
  by (simp add: stored_fields_def selected_fields_def)

text \<open>A response of a call that reads the store: no page descriptors, selected fields only.\<close>

lemma miss_listing_shape:
  assumes miss: "cache_read (date_now e) (templateCache w) = None"
    and l: "listing_of (snd (getTemplates e req w)) = Some l"
  shows "next_page l = None \<and> previous_page l = None
    \<and> list_all (\<lambda>doc. map fst doc = selected_fields) (templates l)"
proof -
  have sel: "map fst (select_fields selected_fields (lean t)) = selected_fields" for t
    using selected_view_fields[of t] by (simp add: selected_view_def)
  show ?thesis
    using l
    by (auto simp add: getTemplates_def Let_def miss failure_def listing_of_def list_all_iff
        sel split: prod.splits option.splits sum.splits if_splits)
qed

text \<open>
  Claim C10: the body of the listing response depends on whether the cache is fresh. A
  call served from the cache (\<open>e\<close>, \<open>w\<close>) returns documents with every stored field
  and carries the \<^verbatim>\<open>next\<close> descriptor when documents remain after the page and the
  \<^verbatim>\<open>previous\<close> descriptor when the page does not start at the first document; a call that
  reads the store (\<open>e'\<close>, \<open>w'\<close>) returns the selected fields only and never a descriptor.
  So for the same request, with page and limit at least 1, the two bodies differ whenever
  the cached array is not empty, in particular when \<open>w'\<close> is \<open>w\<close> and only the clock has
  moved on.
\<close>

theorem body_depends_on_cache_freshness:
  assumes hit: "cache_read (date_now e) (templateCache w) = Some d"
    and miss: "cache_read (date_now e') (templateCache w') = None"
  shows "(\<exists>l. snd (getTemplates e req w) = Response 200 (Success l)
           \<and> templates l =
               map lean (js_slice d
                 ((parse_page (q_page req) - 1) * parse_limit (q_limit req))
                 (parse_page (q_page req) * parse_limit (q_limit req)))
           \<and> list_all (\<lambda>doc. map fst doc = stored_fields) (templates l)
           \<and> next_page l =
               (if parse_page (q_page req) * parse_limit (q_limit req) < int (length d)
                then Some (PageRef (parse_page (q_page req) + 1) (parse_limit (q_limit req)))
                else None)
           \<and> previous_page l =
               (if 0 < (parse_page (q_page req) - 1) * parse_limit (q_limit req)
                then Some (PageRef (parse_page (q_page req) - 1) (parse_limit (q_limit req)))
                else None))
    \<and> (\<forall>l. listing_of (snd (getTemplates e' req w')) = Some l \<longrightarrow>
           next_page l = None \<and> previous_page l = None
           \<and> list_all (\<lambda>doc. map fst doc = selected_fields) (templates l))
    \<and> (1 \<le> parse_page (q_page req) \<and> 1 \<le> parse_limit (q_limit req) \<and> d \<noteq> [] \<longrightarrow>
           snd (getTemplates e req w) \<noteq> snd (getTemplates e' req w'))"
proof -
  let ?p = "parse_page (q_page req)"
  let ?n = "parse_limit (q_limit req)"
  let ?page = "take (nat ?n) (drop (nat ((?p - 1) * ?n)) d)"
  let ?l = "json_listing (paginateResults d ?p ?n)"
  have r: "snd (getTemplates e req w) = Response 200 (Success ?l)"
    by (simp add: getTemplates_hit[OF hit])
  have t: "templates ?l = map lean (js_slice d ((?p - 1) * ?n) (?p * ?n))"
    by (simp add: json_listing_def paginateResults_def Let_def)
  have f: "list_all (\<lambda>doc. map fst doc = stored_fields) (templates ?l)"
    unfolding t by (simp add: list_all_iff lean_fields)
  have nx: "next_page ?l = (if ?p * ?n < int (length d) then Some (PageRef (?p + 1) ?n) else None)"
    by (simp add: json_listing_def paginateResults_def Let_def)
  have pv: "previous_page ?l = (if 0 < (?p - 1) * ?n then Some (PageRef (?p - 1) ?n) else None)"
    by (simp add: json_listing_def paginateResults_def Let_def)
  have shape: "next_page l = None \<and> previous_page l = None
      \<and> list_all (\<lambda>doc. map fst doc = selected_fields) (templates l)"
    if "listing_of (snd (getTemplates e' req w')) = Some l" for l
    using miss_listing_shape[OF miss that] .
  have differ: "snd (getTemplates e req w) \<noteq> snd (getTemplates e' req w')"
    if page: "1 \<le> ?p" and lmt: "1 \<le> ?n" and ne: "d \<noteq> []"
  proof
    assume eq: "snd (getTemplates e req w) = snd (getTemplates e' req w')"
    have t': "templates ?l = map lean ?page"
      unfolding t using page lmt by (simp add: js_slice_page)
    have "snd (getTemplates e' req w') = Response 200 (Success ?l)"
      using eq r by simp
    then have "listing_of (snd (getTemplates e' req w')) = Some ?l"
      by (simp add: listing_of_def)
    from shape[OF this] have pn: "previous_page ?l = None"
      and sel: "list_all (\<lambda>doc. map fst doc = selected_fields) (templates ?l)" by simp_all
    show False
    proof (cases "?page")
      case Nil
      define k where "k = (?p - 1) * ?n"
      have k0: "0 \<le> k" using page lmt by (simp add: k_def)
      have "int (length d) \<le> k"
      proof (rule ccontr)
        assume "\<not> int (length d) \<le> k"
        then have "nat k < length d" using k0 by linarith
        then have "drop (nat k) d \<noteq> []" by simp
        moreover have "0 < nat ?n" using lmt by simp
        ultimately have "take (nat ?n) (drop (nat k) d) \<noteq> []"
          by (cases "drop (nat k) d") auto
        then show False using Nil by (simp add: k_def)
      qed
      then have "int (length d) \<le> (?p - 1) * ?n" by (simp add: k_def)
      then have "0 < (?p - 1) * ?n" using ne by (cases d) auto
      then show False using pn pv by simp
    next
      case (Cons x xs)
      then have "map fst (lean x) = selected_fields" using sel unfolding t' by simp
      then show False using lean_fields stored_not_selected by simp
    qed
  qed
  show ?thesis using r t f nx pv shape differ by blast
qed

text \<open>
  An instance: one state, whose cache holds the two documents of the collection since time
  999000, and one request; the call at time 1000000 is served from the cache, the call at
  time 2000000 reads the store, and the bodies differ.
\<close>

theorem body_depends_on_cache_freshness_witness:
  "cache_read 1000000 (cache_of 999000
       [tpl ''drake'' ''popular'' 9 1, tpl ''doge'' ''animals'' 5 2])
     = Some [tpl ''drake'' ''popular'' 9 1, tpl ''doge'' ''animals'' 5 2]
   \<and> cache_read 2000000 (cache_of 999000
       [tpl ''drake'' ''popular'' 9 1, tpl ''doge'' ''animals'' 5 2]) = None
   \<and> snd (getTemplates (env_at 1000000 (FetchFailed ''timeout''))
        (request None None None None)
        (world_of [tpl ''drake'' ''popular'' 9 1, tpl ''doge'' ''animals'' 5 2]
           (cache_of 999000 [tpl ''drake'' ''popular'' 9 1, tpl ''doge'' ''animals'' 5 2])))
     \<noteq> snd (getTemplates (env_at 2000000 (FetchFailed ''timeout''))
        (request None None None None)
        (world_of [tpl ''drake'' ''popular'' 9 1, tpl ''doge'' ''animals'' 5 2]
           (cache_of 999000 [tpl ''drake'' ''popular'' 9 1, tpl ''doge'' ''animals'' 5 2])))"
proof -
  let ?c = "[tpl ''drake'' ''popular'' 9 1, tpl ''doge'' ''animals'' 5 2]"
  let ?w = "world_of ?c (cache_of 999000 ?c)"
  let ?r = "request None None None None"
  let ?e = "env_at 1000000 (FetchFailed ''timeout'')"
  let ?e' = "env_at 2000000 (FetchFailed ''timeout'')"
  have h: "cache_read 1000000 (cache_of 999000 ?c) = Some ?c"
    by (simp add: cache_read_def cache_of_def)
  have m: "cache_read 2000000 (cache_of 999000 ?c) = None"
    by (simp add: cache_read_def cache_of_def)
  have hit: "cache_read (date_now ?e) (templateCache ?w) = Some ?c"
    using h by (simp add: env_at_def world_of_def)
  have miss: "cache_read (date_now ?e') (templateCache ?w) = None"
    using m by (simp add: env_at_def world_of_def)
  have p: "1 \<le> parse_page (q_page ?r)" "1 \<le> parse_limit (q_limit ?r)"
    by (simp_all add: request_def parse_page_def parse_limit_def parse_defs)
  have "?c \<noteq> []" by simp
  with body_depends_on_cache_freshness[OF hit miss, of ?r] p h m show ?thesis by blast
qed

section \<open>Likes\<close>

lemma indexOf_ge: "- 1 \<le> indexOf xs x"
  by (induction xs) (auto simp add: Let_def)

lemma indexOf_absent: "(indexOf xs x = - 1) = (x \<notin> set xs)"
proof (induction xs)
  case Nil
  then show ?case by simp
next
  case (Cons y ys)
  have "indexOf ys x + 1 \<noteq> - 1" using indexOf_ge[of ys x] by linarith
  then show ?case using Cons by (simp add: Let_def)
qed

lemma indexOf_range: "x \<in> set xs \<Longrightarrow> 0 \<le> indexOf xs x \<and> indexOf xs x < int (length xs)"
  by (induction xs) (auto simp add: Let_def indexOf_absent)

text \<open>Removing the element at the index that \<open>indexOf\<close> found removes its first occurrence.\<close>

lemma splice1_indexOf: "x \<in> set xs \<Longrightarrow> splice1 xs (indexOf xs x) = remove1 x xs"
proof (induction xs)
  case Nil
  then show ?case by simp
next
  case (Cons y ys)
  show ?case
  proof (cases "y = x")
    case True
    then show ?thesis by (simp add: splice1_def slice_index_def)
  next
    case False
    then have mem: "x \<in> set ys" using Cons.prems by simp
    have r: "0 \<le> indexOf ys x" "indexOf ys x < int (length ys)"
      using indexOf_range[OF mem] by simp_all
    have ne: "indexOf ys x \<noteq> - 1" using r by simp
    have k: "slice_index (length ys) (indexOf ys x) = nat (indexOf ys x)"
      using r by (simp add: slice_index_def)
    have k': "slice_index (Suc (length ys)) (indexOf ys x + 1) = Suc (nat (indexOf ys x))"
      using r by (simp add: slice_index_def nat_add_distrib)
    have "splice1 ys (indexOf ys x) = remove1 x ys" by (rule Cons.IH[OF mem])
    then show ?thesis
      using False ne r by (simp add: splice1_def Let_def k k')
  qed
qed

lemma once_removed: "count_list xs x \<le> 1 \<Longrightarrow> x \<notin> set (remove1 x xs)"
  by (induction xs) (auto simp add: count_list_0_iff split: if_splits)

lemma set_remove1_append: "x \<in> set xs \<Longrightarrow> set (remove1 x xs @ [x]) = set xs"
  by (induction xs) auto

lemma like_found:
  assumes "memes mid = Some m"
  shows "like memes mid userId =
     (if userId \<in> set (likes m)
      then (memes(mid \<mapsto> m\<lparr>likes := remove1 userId (likes m)\<rparr>),
            LikeResult ''unliked'' (Number NaN))
      else (memes(mid \<mapsto> m\<lparr>likes := likes m @ [userId]\<rparr>),
            LikeResult ''liked'' (Number NaN)))"
  using assms
  by (cases m)
    (simp add: like_def Let_def hydrate_def save_def meme.defs meme_document.defs
      indexOf_absent splice1_indexOf)

text \<open>The handler keeps the likes free of duplicates.\<close>

lemma like_keeps_distinct:
  assumes "memes mid = Some m" "distinct (likes m)"
    "fst (like memes mid userId) mid = Some m'"
  shows "distinct (likes m')"
  using assms like_found[of memes mid m userId] by (auto split: if_splits)

text \<open>
  Claim C7, amended: the like endpoint toggles the membership of the user in the likes of
  the meme. For a meme that holds the user at most once, the first call by the user
  changes the length of the likes by exactly 1 (one more when the user was absent, the
  action being \<^verbatim>\<open>liked\<close>; one less when present, the action being \<^verbatim>\<open>unliked\<close>), and the
  second call by the same user reverses it: after two calls the likes have their original
  length and members, and when the user was absent they are the original sequence.
\<close>

theorem like_twice_restores_likes:
  assumes m: "memes mid = Some m"
    and once: "count_list (likes m) userId \<le> 1"
  shows "(userId \<notin> set (likes m) \<longrightarrow>
           stored_likes (fst (like memes mid userId)) mid = Some (likes m @ [userId])
           \<and> (\<exists>c. snd (like memes mid userId) = LikeResult ''liked'' c)
           \<and> stored_likes (fst (like (fst (like memes mid userId)) mid userId)) mid
               = Some (likes m))
    \<and> (userId \<in> set (likes m) \<longrightarrow>
           stored_likes (fst (like memes mid userId)) mid = Some (remove1 userId (likes m))
           \<and> (\<exists>c. snd (like memes mid userId) = LikeResult ''unliked'' c)
           \<and> Suc (length (remove1 userId (likes m))) = length (likes m)
           \<and> stored_likes (fst (like (fst (like memes mid userId)) mid userId)) mid
               = Some (remove1 userId (likes m) @ [userId]))
    \<and> (\<exists>ls1 ls2. stored_likes (fst (like memes mid userId)) mid = Some ls1
           \<and> stored_likes (fst (like (fst (like memes mid userId)) mid userId)) mid = Some ls2
           \<and> \<bar>int (length ls1) - int (length (likes m))\<bar> = 1
           \<and> length ls2 = length (likes m) \<and> set ls2 = set (likes m))"
proof (cases "userId \<in> set (likes m)")
  case True
  let ?m1 = "m\<lparr>likes := remove1 userId (likes m)\<rparr>"
  have out: "userId \<notin> set (likes ?m1)"
    using once by (simp add: once_removed)
  have s1: "like memes mid userId =
        (memes(mid \<mapsto> ?m1), LikeResult ''unliked'' (Number NaN))"
    using True by (simp add: like_found[of memes mid m userId, OF m])
  have m1: "(memes(mid \<mapsto> ?m1)) mid = Some ?m1" by simp
  have s2: "like (memes(mid \<mapsto> ?m1)) mid userId =
        ((memes(mid \<mapsto> ?m1))(mid \<mapsto> ?m1\<lparr>likes := likes ?m1 @ [userId]\<rparr>),
         LikeResult ''liked'' (Number NaN))"
    using out by (simp add: like_found[of "memes(mid \<mapsto> ?m1)" mid ?m1 userId, OF m1])
  have len: "Suc (length (remove1 userId (likes m))) = length (likes m)"
    using True by (simp add: length_remove1) (cases "likes m", auto)
  have st: "set (remove1 userId (likes m) @ [userId]) = set (likes m)"
    using True by (rule set_remove1_append)
  show ?thesis
    using True len st by (simp add: s1 s2 stored_likes_def)
next
  case False
  let ?m1 = "m\<lparr>likes := likes m @ [userId]\<rparr>"
  have s1: "like memes mid userId = (memes(mid \<mapsto> ?m1), LikeResult ''liked'' (Number NaN))"
    using False by (simp add: like_found[of memes mid m userId, OF m])
  have m1: "(memes(mid \<mapsto> ?m1)) mid = Some ?m1" by simp
  have rm: "remove1 userId (likes m @ [userId]) = likes m"
    using False by (simp add: remove1_append)
  have s2: "like (memes(mid \<mapsto> ?m1)) mid userId =
        ((memes(mid \<mapsto> ?m1))(mid \<mapsto> ?m1\<lparr>likes := likes m\<rparr>),
         LikeResult ''unliked'' (Number NaN))"
    by (simp add: like_found[of "memes(mid \<mapsto> ?m1)" mid ?m1 userId, OF m1] rm)
  show ?thesis
    using False by (simp add: s1 s2 stored_likes_def)
qed

text \<open>
  Two instances: user 7 on a meme nobody likes yet, and user 7 on a meme that users 7 and
  8 like.
\<close>

theorem like_twice_restores_likes_witness:
  "count_list (likes (meme_of 3 [])) 7 \<le> 1
   \<and> stored_likes (fst (like [1 \<mapsto> meme_of 3 []] 1 7)) 1 = Some [7]
   \<and> stored_likes (fst (like (fst (like [1 \<mapsto> meme_of 3 []] 1 7)) 1 7)) 1 = Some []
   \<and> count_list (likes (meme_of 3 [7, 8])) 7 \<le> 1
   \<and> stored_likes (fst (like [1 \<mapsto> meme_of 3 [7, 8]] 1 7)) 1 = Some [8]
   \<and> stored_likes (fst (like (fst (like [1 \<mapsto> meme_of 3 [7, 8]] 1 7)) 1 7)) 1
       = Some [8, 7]"
proof -
  have a: "[1 \<mapsto> meme_of 3 []] (1::nat) = Some (meme_of 3 [])" by simp
  have b: "[1 \<mapsto> meme_of 3 [7, 8]] (1::nat) = Some (meme_of 3 [7, 8])" by simp
  have ca: "count_list (likes (meme_of 3 [])) 7 \<le> 1" by (simp add: meme_of_def)
  have cb: "count_list (likes (meme_of 3 [7, 8])) 7 \<le> 1" by (simp add: meme_of_def)
  show ?thesis
    using like_twice_restores_likes[of "[1 \<mapsto> meme_of 3 []]" 1 "meme_of 3 []" 7, OF a ca]
      like_twice_restores_likes[of "[1 \<mapsto> meme_of 3 [7, 8]]" 1 "meme_of 3 [7, 8]" 7,
        OF b cb]
    by (simp add: meme_of_def)
qed

text \<open>
  The claim as it was stated has two calls change \<^verbatim>\<open>likesCount\<close> by exactly 1. On a meme
  nobody likes yet, two calls by user 7 leave the likes as they were, empty, and the
  \<^verbatim>\<open>likesCount\<close> reported by both calls is \<^verbatim>\<open>NaN\<close>.
\<close>

theorem like_twice_counterexample:
  "stored_likes [1 \<mapsto> meme_of 3 []] 1 = Some []
   \<and> stored_likes (fst (like (fst (like [1 \<mapsto> meme_of 3 []] 1 7)) 1 7)) 1 = Some []
   \<and> snd (like [1 \<mapsto> meme_of 3 []] 1 7) = LikeResult ''liked'' (Number NaN)
   \<and> snd (like (fst (like [1 \<mapsto> meme_of 3 []] 1 7)) 1 7)
       = LikeResult ''unliked'' (Number NaN)"
  by code_simp

text \<open>
  Claim C8: after every like or unlike the stored meme's \<^verbatim>\<open>likesCount\<close> equals the length
  of its \<^verbatim>\<open>likes\<close>, and the likes hold each user at most once. The second part holds
  (\<open>like_keeps_distinct\<close>). The first does not: the schema has no \<^verbatim>\<open>likesCount\<close> path, so the
  handler computes \<^verbatim>\<open>undefined + 1\<close> and nothing is stored. After user 7 likes a meme that
  user 4 likes, the likes are two, the reported count is \<^verbatim>\<open>NaN\<close>, and the stored meme
  reads \<^verbatim>\<open>undefined\<close>; after user 4 then unlikes it, the same with one like.
\<close>

theorem likesCount_not_maintained:
  "stored_likes (fst (like [1 \<mapsto> meme_of 3 [4]] 1 7)) 1 = Some [4, 7]
   \<and> snd (like [1 \<mapsto> meme_of 3 [4]] 1 7) = LikeResult ''liked'' (Number NaN)
   \<and> stored_likesCount (fst (like [1 \<mapsto> meme_of 3 [4]] 1 7)) 1 = Some Undefined
   \<and> stored_likes (fst (like (fst (like [1 \<mapsto> meme_of 3 [4]] 1 7)) 1 4)) 1 = Some [7]
   \<and> snd (like (fst (like [1 \<mapsto> meme_of 3 [4]] 1 7)) 1 4)
       = LikeResult ''unliked'' (Number NaN)
   \<and> stored_likesCount (fst (like (fst (like [1 \<mapsto> meme_of 3 [4]] 1 7)) 1 4)) 1
       = Some Undefined"
  by code_simp

text \<open>On every meme and for every user, the count the handler reports is \<^verbatim>\<open>NaN\<close>.\<close>

lemma like_reports_NaN:
  "memes mid = Some m \<Longrightarrow> \<exists>a. snd (like memes mid userId) = LikeResult a (Number NaN)"
  using like_found[of memes mid m userId] by simp

section \<open>Favourites and popularity\<close>

lemma count_list_remove1:
  "x \<in> set xs \<Longrightarrow> count_list (remove1 x xs) y = count_list xs y - (if x = y then 1 else 0)"
  by (induction xs) auto

text \<open>The handler on an active template and an existing user.\<close>

lemma favorite_found:
  assumes t: "templates_by_id s tid = Some t" and a: "status t = ''active''"
    and u: "users s uid = Some u"
  shows "favorite s tid uid =
     (if tid \<in> set (favoriteTemplates u)
      then (s\<lparr>templates_by_id := (templates_by_id s)(tid \<mapsto> t\<lparr>popularity := popularity t - 1\<rparr>),
              users := (users s)(uid \<mapsto> u\<lparr>favoriteTemplates := remove1 tid (favoriteTemplates u)\<rparr>)\<rparr>,
            Toggled ''removed'' (remove1 tid (favoriteTemplates u)))
      else (s\<lparr>templates_by_id := (templates_by_id s)(tid \<mapsto> t\<lparr>popularity := popularity t + 1\<rparr>),
              users := (users s)(uid \<mapsto> u\<lparr>favoriteTemplates := favoriteTemplates u @ [tid]\<rparr>)\<rparr>,
            Toggled ''added'' (favoriteTemplates u @ [tid])))"
  using assms
  by (simp add: favorite_def template_active_def inc_popularity_def Let_def indexOf_absent
      splice1_indexOf)

text \<open>Any other call changes nothing.\<close>

lemma favorite_rejected:
  "\<not> template_active s tid \<or> users s uid = None \<Longrightarrow> fst (favorite s tid uid) = s"
  by (auto simp add: favorite_def)

text \<open>Replacing the document of one user changes the count by that user's entries.\<close>

lemma fav_count_update:
  assumes fin: "finite (dom (users s))" and u: "users s uid = Some u"
  shows "fav_count (s\<lparr>templates_by_id := ts, users := (users s)(uid \<mapsto> u1)\<rparr>) x
           + count_list (favoriteTemplates u) x
         = fav_count s x + count_list (favoriteTemplates u1) x"
proof -
  define f where
    "f = (\<lambda>k. case users s k of None \<Rightarrow> 0 | Some v \<Rightarrow> count_list (favoriteTemplates v) x)"
  define g where
    "g = (\<lambda>k. case ((users s)(uid \<mapsto> u1)) k of None \<Rightarrow> 0
                | Some v \<Rightarrow> count_list (favoriteTemplates v) x)"
  have mem: "uid \<in> dom (users s)" using u by auto
  have d: "dom ((users s)(uid \<mapsto> u1)) = dom (users s)" using mem by auto
  have lhs: "fav_count (s\<lparr>templates_by_id := ts, users := (users s)(uid \<mapsto> u1)\<rparr>) x
               = sum g (dom (users s))"
    unfolding fav_count_def g_def using d by simp
  have rhs: "fav_count s x = sum f (dom (users s))"
    unfolding fav_count_def f_def by simp
  have rest: "sum g (dom (users s) - {uid}) = sum f (dom (users s) - {uid})"
    by (rule sum.cong) (auto simp add: f_def g_def)
  have fs: "sum f (dom (users s)) = f uid + sum f (dom (users s) - {uid})"
    by (rule sum.remove[OF fin mem])
  have gs: "sum g (dom (users s)) = g uid + sum g (dom (users s) - {uid})"
    by (rule sum.remove[OF fin mem])
  have fu: "f uid = count_list (favoriteTemplates u) x" using u by (simp add: f_def)
  have gu: "g uid = count_list (favoriteTemplates u1) x" by (simp add: g_def)
  show ?thesis
    unfolding lhs rhs using fs gs rest fu gu by linarith
qed

lemma favorite_consistent:
  assumes c: "consistent s"
  shows "consistent (fst (favorite s tid uid))"
proof (cases "template_active s tid \<and> users s uid \<noteq> None")
  case False
  then show ?thesis using c favorite_rejected[of s tid uid] by auto
next
  case True
  then obtain t u where t: "templates_by_id s tid = Some t" and a: "status t = ''active''"
    and u: "users s uid = Some u"
    by (auto simp add: template_active_def split: option.splits)
  have fin: "finite (dom (users s))" using c by (simp add: consistent_def)
  have le: "int (fav_count s x) \<le> popularity t'" if "templates_by_id s x = Some t'" for x t'
    using c that by (simp add: consistent_def)
  have mem: "uid \<in> dom (users s)" using u by auto
  show ?thesis
  proof (cases "tid \<in> set (favoriteTemplates u)")
    case True
    let ?u1 = "u\<lparr>favoriteTemplates := remove1 tid (favoriteTemplates u)\<rparr>"
    let ?ts = "(templates_by_id s)(tid \<mapsto> t\<lparr>popularity := popularity t - 1\<rparr>)"
    let ?s1 = "s\<lparr>templates_by_id := ?ts, users := (users s)(uid \<mapsto> ?u1)\<rparr>"
    have s1: "fst (favorite s tid uid) = ?s1"
      using True by (simp add: favorite_found[OF t a u])
    have pos: "0 < count_list (favoriteTemplates u) tid"
      using True count_list_0_iff[of "favoriteTemplates u" tid] by auto
    have cnt: "fav_count ?s1 x + count_list (favoriteTemplates u) x
                 = fav_count s x + count_list (favoriteTemplates ?u1) x" for x
      by (rule fav_count_update[OF fin u])
    have "int (fav_count ?s1 x) \<le> popularity t'" if h: "?ts x = Some t'" for x t'
    proof (cases "x = tid")
      case True
      then have t': "t' = t\<lparr>popularity := popularity t - 1\<rparr>" using h by simp
      have "fav_count ?s1 tid + count_list (favoriteTemplates u) tid
              = fav_count s tid + (count_list (favoriteTemplates u) tid - 1)"
        using cnt[of tid] \<open>tid \<in> set (favoriteTemplates u)\<close>
        by (simp add: count_list_remove1)
      then have "fav_count ?s1 tid + 1 = fav_count s tid" using pos by linarith
      then show ?thesis using le[OF t] True t' by simp
    next
      case False
      then have "templates_by_id s x = Some t'" using h by simp
      moreover have "fav_count ?s1 x = fav_count s x"
        using cnt[of x] False \<open>tid \<in> set (favoriteTemplates u)\<close>
        by (simp add: count_list_remove1)
      ultimately show ?thesis using le by simp
    qed
    then show ?thesis
      unfolding s1 using fin mem by (simp add: consistent_def insert_absorb)
  next
    case False
    let ?u1 = "u\<lparr>favoriteTemplates := favoriteTemplates u @ [tid]\<rparr>"
    let ?ts = "(templates_by_id s)(tid \<mapsto> t\<lparr>popularity := popularity t + 1\<rparr>)"
    let ?s1 = "s\<lparr>templates_by_id := ?ts, users := (users s)(uid \<mapsto> ?u1)\<rparr>"
    have s1: "fst (favorite s tid uid) = ?s1"
      using False by (simp add: favorite_found[OF t a u])
    have cnt: "fav_count ?s1 x + count_list (favoriteTemplates u) x
                 = fav_count s x + count_list (favoriteTemplates ?u1) x" for x
      by (rule fav_count_update[OF fin u])
    have "int (fav_count ?s1 x) \<le> popularity t'" if h: "?ts x = Some t'" for x t'
    proof (cases "x = tid")
      case True
      then have t': "t' = t\<lparr>popularity := popularity t + 1\<rparr>" using h by simp
      have "fav_count ?s1 tid = fav_count s tid + 1" using cnt[of tid] by simp
      then show ?thesis using le[OF t] True t' by simp
    next
      case False
      then have "templates_by_id s x = Some t'" using h by simp
      moreover have "fav_count ?s1 x = fav_count s x" using cnt[of x] False by simp
      ultimately show ?thesis using le by simp
    qed
    then show ?thesis
      unfolding s1 using fin mem by (simp add: consistent_def insert_absorb)
  qed
qed

lemma favorites_consistent: "consistent s \<Longrightarrow> consistent (favorites s calls)"
  by (induction calls arbitrary: s) (auto simp add: favorite_consistent)

text \<open>
  Claim C9: favouriting a template increments its popularity by exactly 1, un-favouriting
  it by the same user decrements it by exactly 1, and no popularity becomes negative under
  any sequence of calls. The handler is one toggle: a call by a user who does not have the
  template among the favourites adds it and increments, the next call by that user
  removes it and decrements, which gives the original popularity back; a call by a user
  who has it removes one entry and decrements. From a state in which no popularity is
  below the number of favourite entries for its template (so from any state without
  favourites and without negative popularity), every sequence of calls leads to such a
  state, and there no popularity is negative.
\<close>

theorem favorite_popularity:
  assumes c: "consistent s"
  shows "(\<forall>t u. templates_by_id s tid = Some t \<and> status t = ''active''
            \<and> users s uid = Some u \<and> tid \<notin> set (favoriteTemplates u) \<longrightarrow>
            templates_by_id (fst (favorite s tid uid)) tid
              = Some (t\<lparr>popularity := popularity t + 1\<rparr>)
            \<and> snd (favorite s tid uid) = Toggled ''added'' (favoriteTemplates u @ [tid])
            \<and> templates_by_id (fst (favorite (fst (favorite s tid uid)) tid uid)) tid = Some t
            \<and> snd (favorite (fst (favorite s tid uid)) tid uid)
                = Toggled ''removed'' (favoriteTemplates u))
    \<and> (\<forall>t u. templates_by_id s tid = Some t \<and> status t = ''active''
            \<and> users s uid = Some u \<and> tid \<in> set (favoriteTemplates u) \<longrightarrow>
            templates_by_id (fst (favorite s tid uid)) tid
              = Some (t\<lparr>popularity := popularity t - 1\<rparr>)
            \<and> snd (favorite s tid uid)
                = Toggled ''removed'' (remove1 tid (favoriteTemplates u)))
    \<and> consistent (favorites s calls)
    \<and> (\<forall>x t. templates_by_id (favorites s calls) x = Some t \<longrightarrow> 0 \<le> popularity t)"
proof -
  have add: "templates_by_id (fst (favorite s tid uid)) tid
              = Some (t\<lparr>popularity := popularity t + 1\<rparr>)
            \<and> snd (favorite s tid uid) = Toggled ''added'' (favoriteTemplates u @ [tid])
            \<and> templates_by_id (fst (favorite (fst (favorite s tid uid)) tid uid)) tid = Some t
            \<and> snd (favorite (fst (favorite s tid uid)) tid uid)
                = Toggled ''removed'' (favoriteTemplates u)"
    if t: "templates_by_id s tid = Some t" and a: "status t = ''active''"
      and u: "users s uid = Some u" and n: "tid \<notin> set (favoriteTemplates u)" for t u
  proof -
    let ?t1 = "t\<lparr>popularity := popularity t + 1\<rparr>"
    let ?u1 = "u\<lparr>favoriteTemplates := favoriteTemplates u @ [tid]\<rparr>"
    let ?s1 = "s\<lparr>templates_by_id := (templates_by_id s)(tid \<mapsto> ?t1),
                 users := (users s)(uid \<mapsto> ?u1)\<rparr>"
    have s1: "favorite s tid uid = (?s1, Toggled ''added'' (favoriteTemplates u @ [tid]))"
      using n by (simp add: favorite_found[OF t a u])
    have t1: "templates_by_id ?s1 tid = Some ?t1" by simp
    have a1: "status ?t1 = ''active''" using a by simp
    have u1: "users ?s1 uid = Some ?u1" by simp
    have rm: "remove1 tid (favoriteTemplates u @ [tid]) = favoriteTemplates u"
      using n by (simp add: remove1_append)
    show ?thesis
      unfolding s1 by (simp add: favorite_found[OF t1 a1 u1] rm)
  qed
  have del: "templates_by_id (fst (favorite s tid uid)) tid
              = Some (t\<lparr>popularity := popularity t - 1\<rparr>)
            \<and> snd (favorite s tid uid)
                = Toggled ''removed'' (remove1 tid (favoriteTemplates u))"
    if t: "templates_by_id s tid = Some t" and a: "status t = ''active''"
      and u: "users s uid = Some u" and n: "tid \<in> set (favoriteTemplates u)" for t u
    using n by (simp add: favorite_found[OF t a u])
  have inv: "consistent (favorites s calls)" by (rule favorites_consistent[OF c])
  have nonneg: "0 \<le> popularity t" if "templates_by_id (favorites s calls) x = Some t" for x t
  proof -
    have "int (fav_count (favorites s calls) x) \<le> popularity t"
      using inv that by (simp add: consistent_def)
    then show ?thesis by linarith
  qed
  show ?thesis using add del inv nonneg by blast
qed

text \<open>
  Two instances: user 9 favourites template 5 of popularity 0 and calls again; user 9, who
  has template 5 of popularity 1 among the favourites, calls once.
\<close>

theorem favorite_popularity_witness:
  "consistent (catalogue_of 0 [])
   \<and> popularity_at (fst (favorite (catalogue_of 0 []) 5 9)) 5 = Some 1
   \<and> snd (favorite (catalogue_of 0 []) 5 9) = Toggled ''added'' [5]
   \<and> popularity_at (fst (favorite (fst (favorite (catalogue_of 0 []) 5 9)) 5 9)) 5 = Some 0
   \<and> consistent (favorites (catalogue_of 0 []) [(5, 9), (5, 9), (5, 9)])
   \<and> consistent (catalogue_of 1 [5])
   \<and> popularity_at (fst (favorite (catalogue_of 1 [5]) 5 9)) 5 = Some 0
   \<and> snd (favorite (catalogue_of 1 [5]) 5 9) = Toggled ''removed'' []"
proof -
  let ?t = "\<lambda>p. (tpl ''drake'' ''popular'' p 1)\<lparr>status := ''active''\<rparr>"
  have c0: "consistent (catalogue_of 0 [])"
    by (simp add: consistent_def fav_count_def catalogue_of_def tpl_def)
  have c1: "consistent (catalogue_of 1 [5])"
    by (simp add: consistent_def fav_count_def catalogue_of_def tpl_def)
  have t0: "templates_by_id (catalogue_of 0 []) 5 = Some (?t 0)"
    and u0: "users (catalogue_of 0 []) 9 = Some \<lparr>favoriteTemplates = []\<rparr>"
    and t1: "templates_by_id (catalogue_of 1 [5]) 5 = Some (?t 1)"
    and u1: "users (catalogue_of 1 [5]) 9 = Some \<lparr>favoriteTemplates = [5]\<rparr>"
    by (simp_all add: catalogue_of_def)
  have a: "status (?t p) = ''active''" for p by simp
  note w0 = favorite_popularity[OF c0, of 5 9 "[(5, 9), (5, 9), (5, 9)]"]
  note w1 = favorite_popularity[OF c1, of 5 9 "[]"]
  have r0: "templates_by_id (fst (favorite (catalogue_of 0 []) 5 9)) 5
              = Some ((?t 0)\<lparr>popularity := popularity (?t 0) + 1\<rparr>)
            \<and> snd (favorite (catalogue_of 0 []) 5 9) = Toggled ''added'' ([] @ [5])
            \<and> templates_by_id (fst (favorite (fst (favorite (catalogue_of 0 []) 5 9)) 5 9)) 5
              = Some (?t 0)"
    using w0 t0 u0 a[of 0] by (metis empty_iff empty_set user_doc.select_convs(1))
  have r1: "templates_by_id (fst (favorite (catalogue_of 1 [5]) 5 9)) 5
              = Some ((?t 1)\<lparr>popularity := popularity (?t 1) - 1\<rparr>)
            \<and> snd (favorite (catalogue_of 1 [5]) 5 9) = Toggled ''removed'' (remove1 5 [5])"
    using w1 t1 u1 a[of 1] by (metis list.set_intros(1) user_doc.select_convs(1))
  have i0: "consistent (favorites (catalogue_of 0 []) [(5, 9), (5, 9), (5, 9)])"
    using w0 by blast
  show ?thesis
    using c0 c1 r0 r1 i0 by (simp add: popularity_at_def tpl_def)
qed

end
